theory Spec2Isabelle
  imports Complex_Main
begin

section \<open>Values, parameters and the error taxonomy\<close>

text \<open>
  The steps receive a Python dict from parameter names to values. The docstrings declare
  the values as \<open>float\<close> (and \<open>int\<close> for \<open>num_points\<close>), and the code uses \<open>None\<close> as
  the absence sentinel, so a value is \<open>None\<close> or a number. Floats are modelled as reals:
  the formulas are evaluated exactly, without binary rounding error. A dict entry is
  \<open>None\<close> when the key is absent, \<open>Some None\<close> when the key holds Python's \<open>None\<close>.
\<close>

datatype number = PInt int | PFloat real

type_synonym pyval = "number option"

type_synonym params = "string \<rightharpoonup> pyval"

fun to_float :: "number \<Rightarrow> real" where
  "to_float (PInt n) = of_int n"
| "to_float (PFloat x) = x"

text \<open>\<open>parameters.get(key)\<close>: an absent key reads as \<open>None\<close>.\<close>

definition py_get :: "params \<Rightarrow> string \<Rightarrow> pyval" where
  "py_get parameters key = (case parameters key of None \<Rightarrow> None | Some v \<Rightarrow> v)"

text \<open>Truthiness of a value: \<open>None\<close>, \<open>0\<close> and \<open>0.0\<close> are false.\<close>

fun truthy :: "pyval \<Rightarrow> bool" where
  "truthy None = False"
| "truthy (Some v) = (to_float v \<noteq> 0)"

text \<open>
  core/exceptions.py, and the two builtins the steps can meet: \<open>ValueError\<close> of \<open>max\<close>
  on an empty sequence and \<open>ZeroDivisionError\<close>. \<open>str_exn\<close> is \<open>str(e)\<close>: the text
  each constructor hands to \<open>Exception.__init__\<close>.
\<close>

datatype exn =
    InputError string string
  | DesignError string string
  | VerificationError string string
  | ValueError string
  | ZeroDivisionError string

fun str_exn :: "exn \<Rightarrow> string" where
  "str_exn (InputError parameter message) =
     ''Invalid input parameter '' @ [CHR 0x27] @ parameter @ [CHR 0x27] @ '': '' @ message"
| "str_exn (DesignError step message) = ''Design error in '' @ step @ '': '' @ message"
| "str_exn (VerificationError step message) =
     ''Verification error in '' @ step @ '': '' @ message"
| "str_exn (ValueError message) = message"
| "str_exn (ZeroDivisionError message) = message"

text \<open>
  utils/validators.py, \<open>validate_numeric_positive\<close>. The source returns nothing and the
  caller reads the same dict entry again; the model hands the checked number back, so
  that the caller needs no second, unreachable failure branch.
\<close>

definition validate_numeric_positive :: "pyval \<Rightarrow> string \<Rightarrow> exn + number" where
  "validate_numeric_positive val param_name =
     (case val of
        None \<Rightarrow> Inl (InputError param_name ''Must be a number'')
      | Some v \<Rightarrow>
          if to_float v \<le> 0 then Inl (InputError param_name ''Must be positive'')
          else Inr v)"

text \<open>
  core/design_step.py, \<open>DesignStep._validate_inputs\<close>: the first name of the list that
  is not a key of the dict is reported.
\<close>

fun validate_inputs :: "params \<Rightarrow> string list \<Rightarrow> exn + unit" where
  "validate_inputs parameters [] = Inr ()"
| "validate_inputs parameters (param # required_params) =
     (if parameters param = None then Inl (InputError param ''Required parameter missing'')
      else validate_inputs parameters required_params)"

text \<open>
  The \<open>try ... except Exception as e: raise DesignError(self.step_name, str(e))\<close> frame
  of every \<open>design\<close>, and its \<open>VerificationError\<close> twin of \<open>verify\<close>.
\<close>

definition wrap_design :: "string \<Rightarrow> exn + 'a \<Rightarrow> exn + 'a" where
  "wrap_design step_name body =
     (case body of Inl e \<Rightarrow> Inl (DesignError step_name (str_exn e)) | Inr r \<Rightarrow> Inr r)"

definition wrap_verify :: "string \<Rightarrow> exn + 'a \<Rightarrow> exn + 'a" where
  "wrap_verify step_name body =
     (case body of Inl e \<Rightarrow> Inl (VerificationError step_name (str_exn e)) | Inr r \<Rightarrow> Inr r)"

text \<open>The placeholder dicts of \<open>verify\<close> and \<open>check_requirements\<close>.\<close>

record verify_placeholder =
  vp_status :: string
  vp_message :: string

record requirements_result =
  rq_passed :: bool
  rq_message :: string

text \<open>Sequencing of two computations that may raise: the first exception wins.\<close>

definition bind_exn :: "exn + 'a \<Rightarrow> ('a \<Rightarrow> exn + 'b) \<Rightarrow> exn + 'b" where
  "bind_exn m f = (case m of Inl e \<Rightarrow> Inl e | Inr x \<Rightarrow> f x)"

section \<open>Step 1: PreliminarySizing\<close>

text \<open>
  steps/preliminary_sizing.py. The formatted texts (\<open>explanations\<close> and the
  \<open>required\<close>/\<open>explanation\<close> entries of the checks) print floats with a fixed number
  of decimals and are left out of the result records; every other entry is kept.
\<close>

definition ps_step_name :: string where
  "ps_step_name = ''preliminary_sizing''"

definition min_depth_factor :: real where
  "min_depth_factor = 1 / 16"

record depth_calculations =
  dc_formula :: string
  dc_calculated :: real
  dc_rounded :: int
  dc_units :: string

record min_depth_result =
  md_calculations :: depth_calculations
  md_design_depth :: int

record width_calculations =
  wc_min :: real
  wc_max :: real
  wc_recommended :: int
  wc_units :: string

record width_result =
  wd_calculations :: width_calculations
  wd_design_width :: int

record final_dimensions =
  fd_depth :: int
  fd_width :: int
  fd_units :: string

record sizing_results =
  sr_inputs_span_length :: number
  sr_calculations_depth :: depth_calculations
  sr_calculations_width :: width_calculations
  sr_final_dimensions :: final_dimensions

text \<open>\<open>_round_to_even\<close>: \<open>ceil\<close>, then one more when the ceiling is odd.\<close>

definition round_to_even :: "real \<Rightarrow> int" where
  "round_to_even val = (let rounded = \<lceil>val\<rceil> in
     if rounded mod 2 = 0 then rounded else rounded + 1)"

definition calculate_min_depth :: "real \<Rightarrow> min_depth_result" where
  "calculate_min_depth span_in =
     (let min_h = span_in * min_depth_factor;
          rounded_h = round_to_even min_h
      in \<lparr>md_calculations =
            \<lparr>dc_formula = ''L/16'', dc_calculated = min_h, dc_rounded = rounded_h,
             dc_units = ''inches''\<rparr>,
          md_design_depth = rounded_h\<rparr>)"

definition calculate_width :: "real \<Rightarrow> width_result" where
  "calculate_width depth =
     (let min_b = depth / 2;
          max_b = 2 * depth / 3;
          ideal_b = (min_b + max_b) / 2;
          rounded_b = round_to_even ideal_b;
          final_b = min (max rounded_b (round_to_even min_b)) (round_to_even max_b)
      in \<lparr>wd_calculations =
            \<lparr>wc_min = min_b, wc_max = max_b, wc_recommended = final_b,
             wc_units = ''inches''\<rparr>,
          wd_design_width = final_b\<rparr>)"

definition validate_design_inputs :: "params \<Rightarrow> exn + number" where
  "validate_design_inputs ps =
     (case ps ''span_length'' of
        None \<Rightarrow> Inl (InputError ''span_length'' ''Required for design mode'')
      | Some v \<Rightarrow> validate_numeric_positive v ''span_length'')"

definition PreliminarySizing_design :: "params \<Rightarrow> exn + sizing_results" where
  "PreliminarySizing_design parameters = wrap_design ps_step_name
     (case validate_design_inputs parameters of
        Inl e \<Rightarrow> Inl e
      | Inr span_length \<Rightarrow>
          (let min_depth = calculate_min_depth (to_float span_length);
               design_depth = md_design_depth min_depth;
               width_data = calculate_width (of_int design_depth)
           in Inr \<lparr>sr_inputs_span_length = span_length,
                   sr_calculations_depth = md_calculations min_depth,
                   sr_calculations_width = wd_calculations width_data,
                   sr_final_dimensions =
                     \<lparr>fd_depth = design_depth, fd_width = wd_design_width width_data,
                      fd_units = ''inches''\<rparr>\<rparr>))"

text \<open>
  \<open>_validate_verification_inputs\<close>: the loop over
  \<open>["span_length", "depth", "width"]\<close>, unrolled. Each name is looked up and then
  checked to be a positive number before the next name is looked at.
\<close>

definition validate_verification_param :: "params \<Rightarrow> string \<Rightarrow> exn + number" where
  "validate_verification_param ps param =
     (case ps param of
        None \<Rightarrow> Inl (InputError param ''Required for verification'')
      | Some v \<Rightarrow> validate_numeric_positive v param)"

definition validate_verification_inputs :: "params \<Rightarrow> exn + number \<times> number \<times> number" where
  "validate_verification_inputs ps =
     bind_exn (validate_verification_param ps ''span_length'') (\<lambda>span_in.
     bind_exn (validate_verification_param ps ''depth'') (\<lambda>h.
     bind_exn (validate_verification_param ps ''width'') (\<lambda>b.
     Inr (span_in, h, b))))"

record verify_results =
  vr_provided_depth :: number
  vr_provided_width :: number
  vr_provided_units :: string
  vr_checks_depth_status :: string
  vr_checks_width_status :: string
  vr_overall_passed :: bool
  vr_overall_message :: string

definition PreliminarySizing_verify :: "params \<Rightarrow> exn + verify_results" where
  "PreliminarySizing_verify provided_design = wrap_verify ps_step_name
     (case validate_verification_inputs provided_design of
        Inl e \<Rightarrow> Inl e
      | Inr (span_in, h, b) \<Rightarrow>
          (let min_h = to_float span_in * min_depth_factor;
               h_check = (to_float h \<ge> min_h);
               min_b = to_float h / 2;
               max_b = 2 * to_float h / 3;
               b_check = (min_b \<le> to_float b \<and> to_float b \<le> max_b)
           in Inr \<lparr>vr_provided_depth = h, vr_provided_width = b,
                   vr_provided_units = ''inches'',
                   vr_checks_depth_status = (if h_check then ''PASS'' else ''FAIL''),
                   vr_checks_width_status = (if b_check then ''PASS'' else ''FAIL''),
                   vr_overall_passed = (h_check \<and> b_check),
                   vr_overall_message =
                     (if h_check \<and> b_check then ''All requirements met''
                      else ''Fails 1+ requirements'')\<rparr>))"

definition PreliminarySizing_check_requirements :: "params \<Rightarrow> requirements_result" where
  "PreliminarySizing_check_requirements parameters =
     \<lparr>rq_passed = True, rq_message = ''Requirements check not implemented''\<rparr>"

section \<open>Step 2: LoadAnalysis\<close>

text \<open>
  steps/load_analysis.py. A combination entry keeps \<open>name\<close>, \<open>formula\<close>, \<open>value\<close> and
  \<open>units\<close>; the formatted \<open>calculation\<close> text and the \<open>explanations\<close> are left out.
  \<open>load_combinations\<close> is a dict read in insertion order by \<open>_set_controlling_load\<close>,
  hence an association list.
\<close>

definition la_step_name :: string where
  "la_step_name = ''load_analysis''"

record load_combination =
  lc_name :: string
  lc_formula :: string
  lc_value :: real
  lc_units :: string

record controlling =
  cl_combination :: string
  cl_value :: real
  cl_units :: string

record load_results =
  lr_inputs :: "string \<rightharpoonup> number"
  lr_load_combinations :: "(string \<times> load_combination) list"
  lr_controlling_load :: "controlling option"

text \<open>\<open>d[key] = v\<close> on an insertion-ordered dict: a known key keeps its place.\<close>

fun dict_set :: "('k \<times> 'v) list \<Rightarrow> 'k \<Rightarrow> 'v \<Rightarrow> ('k \<times> 'v) list" where
  "dict_set [] key v = [(key, v)]"
| "dict_set ((k, w) # kvs) key v =
     (if k = key then (key, v) # kvs else (k, w) # dict_set kvs key v)"

text \<open>\<open>filter(None, values)\<close>: the truthy entries, as floats.\<close>

fun filter_None :: "pyval list \<Rightarrow> real list" where
  "filter_None [] = []"
| "filter_None (None # vs) = filter_None vs"
| "filter_None (Some v # vs) =
     (if to_float v \<noteq> 0 then to_float v # filter_None vs else filter_None vs)"

text \<open>
  \<open>max(iterable)\<close> raises \<open>ValueError\<close> on an empty iterable (the message is the one of
  CPython up to 3.11); \<open>max(iterable, default=d)\<close> returns \<open>d\<close> there.
\<close>

definition py_max :: "real list \<Rightarrow> exn + real" where
  "py_max xs = (case xs of
      [] \<Rightarrow> Inl (ValueError ''max() arg is an empty sequence'')
    | x # rest \<Rightarrow> Inr (fold max rest x))"

definition py_max_default :: "real list \<Rightarrow> real \<Rightarrow> real" where
  "py_max_default xs d = (case xs of [] \<Rightarrow> d | x # rest \<Rightarrow> fold max rest x)"

text \<open>\<open>v or 0\<close>.\<close>

definition or_zero :: "pyval \<Rightarrow> real" where
  "or_zero v = (case v of None \<Rightarrow> 0 | Some x \<Rightarrow> if to_float x \<noteq> 0 then to_float x else 0)"

text \<open>\<open>0.5*W if W else None\<close>.\<close>

definition half_if_truthy :: "pyval \<Rightarrow> pyval" where
  "half_if_truthy W = (case W of
      None \<Rightarrow> None
    | Some w \<Rightarrow> if to_float w \<noteq> 0 then Some (PFloat (0.5 * to_float w)) else None)"

definition la_validate_inputs :: "params \<Rightarrow> exn + number" where
  "la_validate_inputs ps =
     (case ps ''dead_load'' of
        None \<Rightarrow> Inl (InputError ''dead_load'' ''Required for load analysis'')
      | Some v \<Rightarrow> validate_numeric_positive v ''dead_load'')"

definition la_initialize_results :: "params \<Rightarrow> load_results" where
  "la_initialize_results ps =
     \<lparr>lr_inputs = (\<lambda>k. case ps k of None \<Rightarrow> None | Some v \<Rightarrow> v),
      lr_load_combinations = [],
      lr_controlling_load = None\<rparr>"

text \<open>
  The state of the body of \<open>design\<close>: the \<open>results\<close> dict and the local list
  \<open>combinations\<close>, both updated by \<open>_add_combination\<close>.
\<close>

type_synonym la_state = "load_results \<times> real list"

definition add_combination ::
  "la_state \<Rightarrow> string \<Rightarrow> string \<Rightarrow> string \<Rightarrow> real \<Rightarrow> la_state" where
  "add_combination st key nm formula val =
     (case st of (results, combinations) \<Rightarrow>
        (results\<lparr>lr_load_combinations :=
            dict_set (lr_load_combinations results) key
              \<lparr>lc_name = nm, lc_formula = formula, lc_value = val, lc_units = ''kip/ft''\<rparr>\<rparr>,
         combinations @ [val]))"

text \<open>The seven blocks of \<open>design\<close>, in the order of the source.\<close>

definition combination_1 :: "real \<Rightarrow> la_state \<Rightarrow> la_state" where
  "combination_1 D st =
     add_combination st ''U1'' ''Dead Load Only (ACI 318-19 Eq. 5.3.1a)'' ''1.4D'' (1.4 * D)"

definition combination_2 ::
  "real \<Rightarrow> pyval \<Rightarrow> pyval \<Rightarrow> pyval \<Rightarrow> pyval \<Rightarrow> la_state \<Rightarrow> la_state" where
  "combination_2 D L Lr S R st =
     (case L of
        None \<Rightarrow> st
      | Some l \<Rightarrow>
          (let add_load = py_max_default (filter_None [Lr, S, R]) 0
           in add_combination st ''U2'' ''Basic Load Combination (ACI 318-19 Eq. 5.3.1b)''
                ''1.2D + 1.6L + 0.5(Lr/S/R)''
                (1.2 * D + 1.6 * to_float l + 0.5 * add_load)))"

definition combination_3 ::
  "real \<Rightarrow> pyval \<Rightarrow> pyval \<Rightarrow> pyval \<Rightarrow> pyval \<Rightarrow> pyval \<Rightarrow> la_state \<Rightarrow> exn + la_state" where
  "combination_3 D L Lr S R W st =
     (if list_ex truthy [Lr, S, R] then
        bind_exn (py_max (filter_None [Lr, S, R])) (\<lambda>primary.
        bind_exn (py_max (filter_None [L, half_if_truthy W])) (\<lambda>secondary.
        Inr (add_combination st ''U3''
               ''Roof/Snow/Rain Combination (ACI 318-19 Eq. 5.3.1c)''
               ''1.2D + 1.6(Lr/S/R) + (L or 0.5W)''
               (1.2 * D + 1.6 * primary + secondary))))
      else Inr st)"

definition combination_4 ::
  "real \<Rightarrow> pyval \<Rightarrow> pyval \<Rightarrow> pyval \<Rightarrow> pyval \<Rightarrow> pyval \<Rightarrow> la_state \<Rightarrow> la_state" where
  "combination_4 D L Lr S R W st =
     (case W of
        None \<Rightarrow> st
      | Some w \<Rightarrow>
          (let add_load = py_max_default (filter_None [Lr, S, R]) 0
           in add_combination st ''U4'' ''Wind Load Combination (ACI 318-19 Eq. 5.3.1d)''
                ''1.2D + 1.0W + L + 0.5(Lr/S/R)''
                (1.2 * D + 1.0 * to_float w + or_zero L + 0.5 * add_load)))"

definition combination_5 :: "real \<Rightarrow> pyval \<Rightarrow> pyval \<Rightarrow> pyval \<Rightarrow> la_state \<Rightarrow> la_state" where
  "combination_5 D L S E st =
     (case E of
        None \<Rightarrow> st
      | Some e \<Rightarrow>
          add_combination st ''U5'' ''Seismic Load Combination (ACI 318-19 Eq. 5.3.1e)''
            ''1.2D + 1.0E + L + 0.2S''
            (1.2 * D + 1.0 * to_float e + or_zero L + 0.2 * or_zero S))"

definition combination_6 :: "real \<Rightarrow> pyval \<Rightarrow> la_state \<Rightarrow> la_state" where
  "combination_6 D W st =
     (case W of
        None \<Rightarrow> st
      | Some w \<Rightarrow>
          add_combination st ''U6'' ''Wind Uplift (ACI 318-19 Eq. 5.3.1f)'' ''0.9D + 1.0W''
            (0.9 * D + 1.0 * to_float w))"

definition combination_7 :: "real \<Rightarrow> pyval \<Rightarrow> la_state \<Rightarrow> la_state" where
  "combination_7 D E st =
     (case E of
        None \<Rightarrow> st
      | Some e \<Rightarrow>
          add_combination st ''U7'' ''Seismic Uplift (ACI 318-19 Eq. 5.3.1g)'' ''0.9D + 1.0E''
            (0.9 * D + 1.0 * to_float e))"

text \<open>
  \<open>_set_controlling_load\<close>: the loop over the items of \<open>load_combinations\<close> stops at the
  first entry whose value equals \<open>max(combinations)\<close>; without such an entry, and for an
  empty list, the results stay as they are.
\<close>

fun find_controlling :: "(string \<times> load_combination) list \<Rightarrow> real \<Rightarrow> controlling option" where
  "find_controlling [] max_load = None"
| "find_controlling ((key, combo) # items) max_load =
     (if lc_value combo = max_load
      then Some \<lparr>cl_combination = key, cl_value = max_load, cl_units = ''kip/ft''\<rparr>
      else find_controlling items max_load)"

definition set_controlling_load :: "load_results \<Rightarrow> real list \<Rightarrow> load_results" where
  "set_controlling_load results combinations =
     (case combinations of
        [] \<Rightarrow> results
      | c # cs \<Rightarrow>
          (case find_controlling (lr_load_combinations results) (fold max cs c) of
             None \<Rightarrow> results
           | Some cl \<Rightarrow> results\<lparr>lr_controlling_load := Some cl\<rparr>))"

definition LoadAnalysis_design :: "params \<Rightarrow> exn + load_results" where
  "LoadAnalysis_design parameters = wrap_design la_step_name
     (bind_exn (la_validate_inputs parameters) (\<lambda>dead.
        (let D = to_float dead;
             L = py_get parameters ''live_load'';
             Lr = py_get parameters ''roof_live_load'';
             S = py_get parameters ''snow_load'';
             R = py_get parameters ''rain_load'';
             W = py_get parameters ''wind_load'';
             E = py_get parameters ''seismic_load'';
             st1 = combination_1 D (la_initialize_results parameters, []);
             st2 = combination_2 D L Lr S R st1
         in bind_exn (combination_3 D L Lr S R W st2) (\<lambda>st3.
              (let st4 = combination_4 D L Lr S R W st3;
                   st5 = combination_5 D L S E st4;
                   st6 = combination_6 D W st5;
                   st7 = combination_7 D E st6
               in Inr (set_controlling_load (fst st7) (snd st7)))))))"

definition LoadAnalysis_verify :: "params \<Rightarrow> verify_placeholder" where
  "LoadAnalysis_verify proposed =
     \<lparr>vp_status = ''not_implemented'',
      vp_message = ''Verification not required for load analysis''\<rparr>"

definition LoadAnalysis_check_requirements :: "params \<Rightarrow> requirements_result" where
  "LoadAnalysis_check_requirements results =
     \<lparr>rq_passed = True,
      rq_message = ''Requirements checking not implemented for load analysis''\<rparr>"

section \<open>Step 3: StructuralAnalysis\<close>

text \<open>
  steps/structural_analysis.py. The formatted \<open>calculation\<close> and \<open>explanation\<close> texts
  and the constant empty \<open>calculations\<close> dict are left out of the result records.
\<close>

definition sa_step_name :: string where
  "sa_step_name = ''structural_analysis''"

record reactions =
  rx_Ra :: real
  rx_Rb :: real
  rx_formula :: string
  rx_units :: string

record max_entry =
  me_value :: real
  me_location :: string
  me_formula :: string
  me_units :: string

record maximum_values =
  mv_shear :: max_entry
  mv_moment :: max_entry

record diagrams =
  dg_x_coordinates :: "real list"
  dg_shear_values :: "real list"
  dg_moment_values :: "real list"
  dg_units_x :: string
  dg_units_shear :: string
  dg_units_moment :: string

record analysis_inputs =
  ai_span_length :: number
  ai_factored_load :: number
  ai_num_points :: int

record analysis_results =
  ar_inputs :: analysis_inputs
  ar_reactions :: reactions
  ar_maximum_values :: maximum_values
  ar_diagrams :: diagrams

text \<open>
  \<open>round(x, ndigits)\<close> on the exact value: to the nearest multiple of
  \<open>10 ** -ndigits\<close>, a tie going to the even one.
\<close>

definition py_round :: "real \<Rightarrow> nat \<Rightarrow> real" where
  "py_round x ndigits =
     (let scaled = x * 10 ^ ndigits;
          f = \<lfloor>scaled\<rfloor>;
          d = scaled - of_int f;
          q = (if d < 1 / 2 then f else if d > 1 / 2 then f + 1
               else if even f then f else f + 1)
      in of_int q / 10 ^ ndigits)"

text \<open>
  \<open>_validate_inputs\<close>: the loop over \<open>["span_length", "factored_load"]\<close>, unrolled,
  then the check of \<open>num_points\<close> when the key is there. The third component is
  \<open>None\<close> when the key is absent, so that \<open>params.get("num_points", d)\<close> is \<open>d\<close> there and
  the checked integer otherwise.
\<close>

definition sa_validate_param :: "params \<Rightarrow> string \<Rightarrow> exn + number" where
  "sa_validate_param ps param =
     (case ps param of
        None \<Rightarrow> Inl (InputError param ''Required for structural analysis'')
      | Some v \<Rightarrow> validate_numeric_positive v param)"

definition num_points_message :: string where
  "num_points_message = ''Must be integer '' @ [CHR 0xE2, CHR 0x89, CHR 0xA5] @ '' 2''"

definition sa_validate_inputs :: "params \<Rightarrow> exn + number \<times> number \<times> int option" where
  "sa_validate_inputs ps =
     bind_exn (sa_validate_param ps ''span_length'') (\<lambda>L.
     bind_exn (sa_validate_param ps ''factored_load'') (\<lambda>wu.
       (case ps ''num_points'' of
          None \<Rightarrow> Inr (L, wu, None)
        | Some (Some (PInt n)) \<Rightarrow>
            if n < 2 then Inl (InputError ''num_points'' num_points_message)
            else Inr (L, wu, Some n)
        | Some _ \<Rightarrow> Inl (InputError ''num_points'' num_points_message))))"

definition get_num_points :: "int option \<Rightarrow> int \<Rightarrow> int" where
  "get_num_points np d = (case np of None \<Rightarrow> d | Some n \<Rightarrow> n)"

definition sa_initialize_results :: "number \<Rightarrow> number \<Rightarrow> int option \<Rightarrow> analysis_inputs" where
  "sa_initialize_results L wu np =
     \<lparr>ai_span_length = L, ai_factored_load = wu, ai_num_points = get_num_points np 21\<rparr>"

definition calculate_reactions :: "real \<Rightarrow> real \<Rightarrow> reactions" where
  "calculate_reactions wu L =
     (let reaction = (wu * L) / 2
      in \<lparr>rx_Ra = reaction, rx_Rb = reaction, rx_formula = ''R = wu*L/2'',
          rx_units = ''kip''\<rparr>)"

definition calculate_max_values :: "real \<Rightarrow> real \<Rightarrow> maximum_values" where
  "calculate_max_values wu L =
     (let max_shear = (wu * L) / 2;
          max_moment = (wu * L ^ 2) / 8
      in \<lparr>mv_shear =
            \<lparr>me_value = max_shear, me_location = ''at supports'',
             me_formula = ''Vmax = wu*L/2'', me_units = ''kip''\<rparr>,
          mv_moment =
            \<lparr>me_value = max_moment, me_location = ''midspan'',
             me_formula = ''Mmax = wu*L'' @ [CHR 0xC2, CHR 0xB2] @ ''/8'',
             me_units = ''kip-ft''\<rparr>\<rparr>)"

text \<open>
  \<open>_generate_diagrams\<close>. \<open>range(num_points)\<close> is empty for \<open>num_points \<le> 0\<close>; for
  \<open>num_points = 1\<close> the first comprehension divides by zero (an int by an int, or a
  float by an int, with CPython's message for each).
\<close>

definition py_range :: "int \<Rightarrow> int list" where
  "py_range n = map int [0..<nat n]"

definition generate_diagrams :: "number \<Rightarrow> number \<Rightarrow> int \<Rightarrow> exn + diagrams" where
  "generate_diagrams wu_n L_n num_points =
     (if num_points = 1 then
        Inl (ZeroDivisionError
               (case L_n of PInt _ \<Rightarrow> ''division by zero''
                | PFloat _ \<Rightarrow> ''float division by zero''))
      else
        (let wu = to_float wu_n;
             L = to_float L_n;
             x_coords = map (\<lambda>i. of_int i * (L / of_int (num_points - 1))) (py_range num_points);
             shear = map (\<lambda>x. wu * (L / 2 - x)) x_coords;
             moment = map (\<lambda>x. wu * x * (L - x) / 2) x_coords
         in Inr \<lparr>dg_x_coordinates = map (\<lambda>x. py_round x 2) x_coords,
                 dg_shear_values = map (\<lambda>v. py_round v 2) shear,
                 dg_moment_values = map (\<lambda>m. py_round m 2) moment,
                 dg_units_x = ''ft'', dg_units_shear = ''kip'',
                 dg_units_moment = ''kip-ft''\<rparr>))"

definition StructuralAnalysis_design :: "params \<Rightarrow> exn + analysis_results" where
  "StructuralAnalysis_design parameters = wrap_design sa_step_name
     (bind_exn (sa_validate_inputs parameters) (\<lambda>(L, wu, np).
        (let inputs = sa_initialize_results L wu np;
             num_points = get_num_points np 10;
             reaction = calculate_reactions (to_float wu) (to_float L);
             max_values = calculate_max_values (to_float wu) (to_float L)
         in bind_exn (generate_diagrams wu L num_points) (\<lambda>dgs.
              Inr \<lparr>ar_inputs = inputs, ar_reactions = reaction,
                   ar_maximum_values = max_values, ar_diagrams = dgs\<rparr>))))"

definition StructuralAnalysis_verify :: "params \<Rightarrow> verify_placeholder" where
  "StructuralAnalysis_verify proposed =
     \<lparr>vp_status = ''not_implemented'',
      vp_message = ''Verification not required for structural analysis''\<rparr>"

definition StructuralAnalysis_check_requirements :: "params \<Rightarrow> requirements_result" where
  "StructuralAnalysis_check_requirements results =
     \<lparr>rq_passed = True,
      rq_message = ''Requirements checking not implemented for structural analysis''\<rparr>"

section \<open>The wording of the specification\<close>

text \<open>
  Two definitions that follow the words of the specification, to compare the code with:
  "take the ceiling of the value; if the ceiling is odd, add 1", and clamping a value
  into an interval.
\<close>

definition spec_round_up_even :: "real \<Rightarrow> int" where
  "spec_round_up_even x = \<lceil>x\<rceil> + (if odd \<lceil>x\<rceil> then 1 else 0)"

definition spec_clamp :: "int \<Rightarrow> int \<Rightarrow> int \<Rightarrow> int" where
  "spec_clamp lo hi v = (if v < lo then lo else if hi < v then hi else v)"

section \<open>Bookkeeping for the proofs about LoadAnalysis\<close>

text \<open>
  These definitions are not code of the repository. \<open>combination_values\<close> reads the keys
  and values off a result; \<open>combination_table\<close> lists, for given loads, the entries the
  seven blocks of \<open>design\<close> add when none of them raises; \<open>first_with_value\<close> is
  \<open>find_controlling\<close> on such a list; \<open>la_inv\<close> is the invariant of the body of
  \<open>design\<close>: the dict and the local list \<open>combinations\<close> hold the same values in the
  same order, and no controlling load is set yet.
\<close>

definition combination_values :: "load_results \<Rightarrow> (string \<times> real) list" where
  "combination_values r = map (\<lambda>(key, combo). (key, lc_value combo)) (lr_load_combinations r)"

definition combination_table ::
  "real \<Rightarrow> pyval \<Rightarrow> pyval \<Rightarrow> pyval \<Rightarrow> pyval \<Rightarrow> pyval \<Rightarrow> pyval \<Rightarrow> (string \<times> real) list" where
  "combination_table D L Lr S R W E =
     [(''U1'', 1.4 * D)]
     @ (case L of None \<Rightarrow> []
        | Some l \<Rightarrow> [(''U2'', 1.2 * D + 1.6 * to_float l
                          + 0.5 * py_max_default (filter_None [Lr, S, R]) 0)])
     @ (if list_ex truthy [Lr, S, R]
        then [(''U3'', 1.2 * D + 1.6 * py_max_default (filter_None [Lr, S, R]) 0
                          + py_max_default (filter_None [L, half_if_truthy W]) 0)]
        else [])
     @ (case W of None \<Rightarrow> []
        | Some w \<Rightarrow> [(''U4'', 1.2 * D + 1.0 * to_float w + or_zero L
                          + 0.5 * py_max_default (filter_None [Lr, S, R]) 0)])
     @ (case E of None \<Rightarrow> []
        | Some e \<Rightarrow> [(''U5'', 1.2 * D + 1.0 * to_float e + or_zero L + 0.2 * or_zero S)])
     @ (case W of None \<Rightarrow> [] | Some w \<Rightarrow> [(''U6'', 0.9 * D + 1.0 * to_float w)])
     @ (case E of None \<Rightarrow> [] | Some e \<Rightarrow> [(''U7'', 0.9 * D + 1.0 * to_float e)])"

fun first_with_value :: "(string \<times> real) list \<Rightarrow> real \<Rightarrow> controlling option" where
  "first_with_value [] max_load = None"
| "first_with_value ((key, v) # items) max_load =
     (if v = max_load
      then Some \<lparr>cl_combination = key, cl_value = max_load, cl_units = ''kip/ft''\<rparr>
      else first_with_value items max_load)"

definition la_inv :: "(string \<times> real) list \<Rightarrow> la_state \<Rightarrow> bool" where
  "la_inv kvs st \<longleftrightarrow> combination_values (fst st) = kvs \<and> snd st = map snd kvs
     \<and> lr_controlling_load (fst st) = None"

text \<open>The inputs the examples below are evaluated at.\<close>

definition example_loads :: params where
  "example_loads = [''dead_load'' \<mapsto> Some (PFloat 2.5), ''live_load'' \<mapsto> Some (PFloat 1.8),
          ''wind_load'' \<mapsto> Some (PFloat 4.2)]"

definition tie_loads :: params where
  "tie_loads = [''dead_load'' \<mapsto> Some (PInt 8), ''live_load'' \<mapsto> Some (PInt 1)]"

definition zero_loads :: params where
  "zero_loads = [''dead_load'' \<mapsto> Some (PFloat 2.5), ''live_load'' \<mapsto> Some (PInt 0),
     ''snow_load'' \<mapsto> Some (PInt 0), ''wind_load'' \<mapsto> Some (PInt 0),
     ''seismic_load'' \<mapsto> Some (PInt 0)]"

definition beam_example :: params where
  "beam_example = [''span_length'' \<mapsto> Some (PInt 20), ''factored_load'' \<mapsto> Some (PFloat 2.5)]"

section \<open>Properties of PreliminarySizing\<close>

lemma round_to_even_even: "even (round_to_even x)"
  by (simp add: round_to_even_def Let_def) presburger

lemma round_to_even_ge: "x \<le> of_int (round_to_even x)"
  by (simp add: round_to_even_def Let_def) linarith

lemma round_to_even_less: "of_int (round_to_even x) < x + 2"
  by (simp add: round_to_even_def Let_def) linarith

lemma round_to_even_mono:
  assumes "x \<le> y"
  shows "round_to_even x \<le> round_to_even y"
proof -
  have "\<lceil>x\<rceil> \<le> \<lceil>y\<rceil>" using assms by (rule ceiling_mono)
  then show ?thesis
    by (simp add: round_to_even_def Let_def) presburger
qed

lemma round_to_even_spec: "round_to_even x = spec_round_up_even x"
  by (simp add: round_to_even_def spec_round_up_even_def Let_def) presburger

lemma round_to_even_pos:
  assumes "0 < x"
  shows "2 \<le> round_to_even x"
proof -
  define c where "c = \<lceil>x\<rceil>"
  have "1 \<le> c" unfolding c_def using assms by linarith
  then have "2 \<le> (if c mod 2 = 0 then c else c + 1)" by presburger
  then show ?thesis unfolding round_to_even_def Let_def c_def .
qed

lemma design_width_eq:
  "wd_design_width (calculate_width d) =
     min (max (round_to_even ((d / 2 + 2 * d / 3) / 2)) (round_to_even (d / 2)))
         (round_to_even (2 * d / 3))"
  by (simp add: calculate_width_def Let_def)

lemma design_width_bounds:
  assumes "0 \<le> d"
  shows "round_to_even (d / 2) \<le> wd_design_width (calculate_width d)"
    and "wd_design_width (calculate_width d) \<le> round_to_even (2 * d / 3)"
    and "even (wd_design_width (calculate_width d))"
proof -
  have le: "round_to_even (d / 2) \<le> round_to_even (2 * d / 3)"
    using assms by (intro round_to_even_mono) simp
  show "round_to_even (d / 2) \<le> wd_design_width (calculate_width d)"
    unfolding design_width_eq using le by simp
  show "wd_design_width (calculate_width d) \<le> round_to_even (2 * d / 3)"
    unfolding design_width_eq by simp
  show "even (wd_design_width (calculate_width d))"
    unfolding design_width_eq by (simp add: min_def max_def round_to_even_even)
qed

text \<open>
  The clamp of \<open>_calculate_width\<close> never acts: the midpoint lies between the ends of the
  band, rounding is monotone, and so the rounded midpoint already lies between the
  rounded ends. The width is the rounded midpoint.
\<close>

lemma design_width_clamp_idle:
  assumes "0 \<le> d"
  shows "wd_design_width (calculate_width d) = round_to_even ((d / 2 + 2 * d / 3) / 2)"
proof -
  have "round_to_even (d / 2) \<le> round_to_even ((d / 2 + 2 * d / 3) / 2)"
    using assms by (intro round_to_even_mono) simp
  moreover have "round_to_even ((d / 2 + 2 * d / 3) / 2) \<le> round_to_even (2 * d / 3)"
    using assms by (intro round_to_even_mono) simp
  ultimately show ?thesis unfolding design_width_eq by simp
qed

lemma PreliminarySizing_design_Inr:
  assumes "parameters ''span_length'' = Some (Some v)" and "0 < to_float v"
  shows "PreliminarySizing_design parameters =
     Inr \<lparr>sr_inputs_span_length = v,
          sr_calculations_depth = md_calculations (calculate_min_depth (to_float v)),
          sr_calculations_width = wd_calculations
            (calculate_width (of_int (round_to_even (to_float v / 16)))),
          sr_final_dimensions =
            \<lparr>fd_depth = round_to_even (to_float v / 16),
             fd_width = wd_design_width
               (calculate_width (of_int (round_to_even (to_float v / 16)))),
             fd_units = ''inches''\<rparr>\<rparr>"
  using assms
  by (simp add: PreliminarySizing_design_def wrap_design_def validate_design_inputs_def
      validate_numeric_positive_def calculate_min_depth_def min_depth_factor_def Let_def)

lemma round_to_even_values:
  "round_to_even 4 = 4" "round_to_even 2 = 2" "round_to_even (8 / 3) = 4"
  "round_to_even (7 / 3) = 4"
  by (simp_all add: round_to_even_def Let_def)

lemma design_64:
  "PreliminarySizing_design [''span_length'' \<mapsto> Some (PInt 64)] =
     Inr \<lparr>sr_inputs_span_length = PInt 64,
          sr_calculations_depth = md_calculations (calculate_min_depth 64),
          sr_calculations_width = wd_calculations (calculate_width 4),
          sr_final_dimensions = \<lparr>fd_depth = 4, fd_width = 4, fd_units = ''inches''\<rparr>\<rparr>"
  using PreliminarySizing_design_Inr [of "[''span_length'' \<mapsto> Some (PInt 64)]" "PInt 64"]
  by (simp add: round_to_even_values design_width_eq)

text \<open>
  What holds of the dimensions for every positive span length: the depth is an even
  integer at least span/16, and the width is an even integer at least depth/2. Towards
  the upper end of the band the code only keeps the width at or below
  \<open>round_to_even(2*depth/3)\<close>, which may lie above 2*depth/3 itself.
\<close>

lemma PreliminarySizing_design_dimensions:
  assumes "parameters ''span_length'' = Some (Some v)" and "0 < to_float v"
  shows "\<exists>r. PreliminarySizing_design parameters = Inr r
     \<and> even (fd_depth (sr_final_dimensions r))
     \<and> to_float v / 16 \<le> of_int (fd_depth (sr_final_dimensions r))
     \<and> even (fd_width (sr_final_dimensions r))
     \<and> round_to_even (of_int (fd_depth (sr_final_dimensions r)) / 2)
          \<le> fd_width (sr_final_dimensions r)
     \<and> fd_width (sr_final_dimensions r)
          \<le> round_to_even (2 * of_int (fd_depth (sr_final_dimensions r)) / 3)
     \<and> real_of_int (fd_depth (sr_final_dimensions r)) / 2
          \<le> of_int (fd_width (sr_final_dimensions r))
     \<and> real_of_int (fd_width (sr_final_dimensions r))
          < 2 * of_int (fd_depth (sr_final_dimensions r)) / 3 + 2"
proof -
  define h where "h = round_to_even (to_float v / 16)"
  define w where "w = wd_design_width (calculate_width (of_int h))"
  have hpos: "2 \<le> h"
    unfolding h_def using assms(2) by (intro round_to_even_pos) simp
  then have h0: "(0::real) \<le> of_int h" by simp
  note wb = design_width_bounds [OF h0, folded w_def]
  have lo: "real_of_int h / 2 \<le> of_int w"
    using round_to_even_ge [of "real_of_int h / 2"] wb(1) by linarith
  have hi: "real_of_int w < 2 * of_int h / 3 + 2"
    using round_to_even_less [of "2 * real_of_int h / 3"] wb(2) by linarith
  have "even h" and "to_float v / 16 \<le> of_int h"
    unfolding h_def by (rule round_to_even_even, rule round_to_even_ge)
  moreover have "PreliminarySizing_design parameters =
     Inr \<lparr>sr_inputs_span_length = v,
          sr_calculations_depth = md_calculations (calculate_min_depth (to_float v)),
          sr_calculations_width = wd_calculations (calculate_width (of_int h)),
          sr_final_dimensions = \<lparr>fd_depth = h, fd_width = w, fd_units = ''inches''\<rparr>\<rparr>"
    unfolding h_def w_def using assms by (rule PreliminarySizing_design_Inr)
  ultimately show ?thesis
    using wb lo hi by simp
qed

lemma PreliminarySizing_design_dimensions_240:
  "\<exists>r. PreliminarySizing_design [''span_length'' \<mapsto> Some (PInt 240)] = Inr r
     \<and> even (fd_depth (sr_final_dimensions r))
     \<and> to_float (PInt 240) / 16 \<le> of_int (fd_depth (sr_final_dimensions r))
     \<and> even (fd_width (sr_final_dimensions r))
     \<and> round_to_even (of_int (fd_depth (sr_final_dimensions r)) / 2)
          \<le> fd_width (sr_final_dimensions r)
     \<and> fd_width (sr_final_dimensions r)
          \<le> round_to_even (2 * of_int (fd_depth (sr_final_dimensions r)) / 3)
     \<and> real_of_int (fd_depth (sr_final_dimensions r)) / 2
          \<le> of_int (fd_width (sr_final_dimensions r))
     \<and> real_of_int (fd_width (sr_final_dimensions r))
          < 2 * of_int (fd_depth (sr_final_dimensions r)) / 3 + 2"
  by (rule PreliminarySizing_design_dimensions) simp_all

text \<open>
  \<open>PreliminarySizing.verify\<close>, which checks a width against the band from depth/2 to
  2*depth/3 itself, fails the dimensions \<open>design\<close> returns for a span of 64 inches,
  depth 4 and width 4, and passes depth 4 with the even width 2.
\<close>

lemma PreliminarySizing_verify_fails_design_64:
  "\<exists>v. PreliminarySizing_verify
          [''span_length'' \<mapsto> Some (PInt 64), ''depth'' \<mapsto> Some (PInt 4),
           ''width'' \<mapsto> Some (PInt 4)] = Inr v
     \<and> vr_checks_depth_status v = ''PASS''
     \<and> vr_checks_width_status v = ''FAIL''
     \<and> \<not> vr_overall_passed v"
  by (simp add: PreliminarySizing_verify_def validate_verification_inputs_def
      validate_verification_param_def validate_numeric_positive_def bind_exn_def
      wrap_verify_def min_depth_factor_def Let_def)

lemma PreliminarySizing_verify_passes_width_2:
  "\<exists>v. PreliminarySizing_verify
          [''span_length'' \<mapsto> Some (PInt 64), ''depth'' \<mapsto> Some (PInt 4),
           ''width'' \<mapsto> Some (PInt 2)] = Inr v
     \<and> vr_overall_passed v"
  by (simp add: PreliminarySizing_verify_def validate_verification_inputs_def
      validate_verification_param_def validate_numeric_positive_def bind_exn_def
      wrap_verify_def min_depth_factor_def Let_def)

text \<open>
  Claim C1. For a span of 64 inches \<open>PreliminarySizing.design\<close> returns depth 4 and
  width 4, and 4 is above 2*depth/3 = 8/3: the width is not within the band from depth/2
  to 2*depth/3 that the claim states and that the code names as its practical limits,
  although the even width 2 lies in that band.
\<close>

theorem PreliminarySizing_width_exceeds_band:
  "\<not> isl (PreliminarySizing_design [''span_length'' \<mapsto> Some (PInt 64)])
   \<and> fd_depth (sr_final_dimensions
        (projr (PreliminarySizing_design [''span_length'' \<mapsto> Some (PInt 64)]))) = 4
   \<and> fd_width (sr_final_dimensions
        (projr (PreliminarySizing_design [''span_length'' \<mapsto> Some (PInt 64)]))) = 4
   \<and> \<not> (real_of_int 4 \<le> 2 * real_of_int 4 / 3)"
  unfolding design_64 by simp

text \<open>
  Claim C5. For every positive span length the depth is the span/16 rounded up to an
  even integer, and the width is the midpoint of [h/2, 2h/3], rounded up to an even
  integer (the ceiling, plus 1 when the ceiling is odd) and clamped into
  [round_up_even(h/2), round_up_even(2h/3)], where h is the depth.
\<close>

theorem PreliminarySizing_width_clamped:
  assumes "parameters ''span_length'' = Some (Some v)" and "0 < to_float v"
  shows "\<exists>r. PreliminarySizing_design parameters = Inr r
     \<and> fd_depth (sr_final_dimensions r) = spec_round_up_even (to_float v / 16)
     \<and> (let h = real_of_int (fd_depth (sr_final_dimensions r));
             min_b = h / 2;
             max_b = 2 * h / 3
         in fd_width (sr_final_dimensions r) =
              spec_clamp (spec_round_up_even min_b) (spec_round_up_even max_b)
                (spec_round_up_even ((min_b + max_b) / 2)))"
proof -
  define h where "h = round_to_even (to_float v / 16)"
  have hpos: "2 \<le> h"
    unfolding h_def using assms(2) by (intro round_to_even_pos) simp
  have le: "round_to_even (real_of_int h / 2) \<le> round_to_even (2 * real_of_int h / 3)"
    using hpos by (intro round_to_even_mono) simp
  have "wd_design_width (calculate_width (of_int h)) =
      spec_clamp (round_to_even (real_of_int h / 2)) (round_to_even (2 * real_of_int h / 3))
        (round_to_even ((real_of_int h / 2 + 2 * real_of_int h / 3) / 2))"
    unfolding design_width_eq spec_clamp_def using le by simp
  then show ?thesis
    unfolding PreliminarySizing_design_Inr [of parameters v, OF assms] h_def [symmetric]
    by (simp add: round_to_even_spec [symmetric] h_def)
qed


theorem PreliminarySizing_width_clamped_witness:
  "\<exists>r. PreliminarySizing_design [''span_length'' \<mapsto> Some (PFloat 240)] = Inr r
     \<and> fd_depth (sr_final_dimensions r) = spec_round_up_even (to_float (PFloat 240) / 16)
     \<and> (let h = real_of_int (fd_depth (sr_final_dimensions r));
             min_b = h / 2;
             max_b = 2 * h / 3
         in fd_width (sr_final_dimensions r) =
              spec_clamp (spec_round_up_even min_b) (spec_round_up_even max_b)
                (spec_round_up_even ((min_b + max_b) / 2)))"
  by (rule PreliminarySizing_width_clamped) simp_all

section \<open>Properties of LoadAnalysis\<close>

lemma dict_set_fresh: "key \<notin> fst ` set kvs \<Longrightarrow> dict_set kvs key v = kvs @ [(key, v)]"
  by (induction kvs) auto

lemma la_inv_add:
  assumes "la_inv kvs st" and "key \<notin> fst ` set kvs"
  shows "la_inv (kvs @ [(key, v)]) (add_combination st key nm f v)"
proof -
  obtain results combinations where st: "st = (results, combinations)" by (cases st)
  have vals: "map (\<lambda>(key, combo). (key, lc_value combo)) (lr_load_combinations results) = kvs"
    and combs: "combinations = map snd kvs" and ctl: "lr_controlling_load results = None"
    using assms(1) by (simp_all add: la_inv_def st combination_values_def)
  have "fst ` set (lr_load_combinations results) = fst ` set kvs"
    using vals by (force simp: image_iff)
  then have fresh: "key \<notin> fst ` set (lr_load_combinations results)"
    using assms(2) by simp
  show ?thesis
    by (simp add: la_inv_def st add_combination_def combination_values_def
        dict_set_fresh [OF fresh] vals combs ctl)
qed

lemma la_inv_init: "la_inv [] (la_initialize_results ps, [])"
  by (simp add: la_inv_def la_initialize_results_def combination_values_def)


lemma py_max_Inr: "py_max xs = Inr m \<Longrightarrow> m = py_max_default xs 0"
  by (cases xs) (simp_all add: py_max_def py_max_default_def)

lemma la_inv_combination_1:
  "la_inv [(''U1'', 1.4 * D)] (combination_1 D (la_initialize_results ps, []))"
  unfolding combination_1_def using la_inv_add [OF la_inv_init, of "''U1''"] by simp

lemma la_inv_combination_2:
  assumes "la_inv kvs st" and "''U2'' \<notin> fst ` set kvs"
  shows "la_inv (kvs @ (case L of None \<Rightarrow> []
        | Some l \<Rightarrow> [(''U2'', 1.2 * D + 1.6 * to_float l
                          + 0.5 * py_max_default (filter_None [Lr, S, R]) 0)]))
     (combination_2 D L Lr S R st)"
  using assms by (cases L) (simp_all add: combination_2_def Let_def la_inv_add)

lemma la_inv_combination_3:
  assumes "la_inv kvs st" and "''U3'' \<notin> fst ` set kvs"
    and "combination_3 D L Lr S R W st = Inr st'"
  shows "la_inv (kvs @ (if list_ex truthy [Lr, S, R]
        then [(''U3'', 1.2 * D + 1.6 * py_max_default (filter_None [Lr, S, R]) 0
                          + py_max_default (filter_None [L, half_if_truthy W]) 0)]
        else [])) st'"
proof (cases "list_ex truthy [Lr, S, R]")
  case False
  then have "st' = st" using assms(3) unfolding combination_3_def by simp
  with False assms(1) show ?thesis by simp
next
  case True
  from assms(3) True obtain primary secondary
    where p: "py_max (filter_None [Lr, S, R]) = Inr primary"
      and s: "py_max (filter_None [L, half_if_truthy W]) = Inr secondary"
      and st': "st' = add_combination st ''U3''
               ''Roof/Snow/Rain Combination (ACI 318-19 Eq. 5.3.1c)''
               ''1.2D + 1.6(Lr/S/R) + (L or 0.5W)''
               (1.2 * D + 1.6 * primary + secondary)"
    unfolding combination_3_def bind_exn_def by (auto split: sum.splits)
  show ?thesis
    unfolding st' using True la_inv_add [OF assms(1) assms(2)]
    by (simp add: py_max_Inr [OF p] py_max_Inr [OF s])
qed

lemma la_inv_combination_4:
  assumes "la_inv kvs st" and "''U4'' \<notin> fst ` set kvs"
  shows "la_inv (kvs @ (case W of None \<Rightarrow> []
        | Some w \<Rightarrow> [(''U4'', 1.2 * D + 1.0 * to_float w + or_zero L
                          + 0.5 * py_max_default (filter_None [Lr, S, R]) 0)]))
     (combination_4 D L Lr S R W st)"
  using assms by (cases W) (simp_all add: combination_4_def Let_def la_inv_add)

lemma la_inv_combination_5:
  assumes "la_inv kvs st" and "''U5'' \<notin> fst ` set kvs"
  shows "la_inv (kvs @ (case E of None \<Rightarrow> []
        | Some e \<Rightarrow> [(''U5'', 1.2 * D + 1.0 * to_float e + or_zero L + 0.2 * or_zero S)]))
     (combination_5 D L S E st)"
  using assms by (cases E) (simp_all add: combination_5_def la_inv_add)

lemma la_inv_combination_6:
  assumes "la_inv kvs st" and "''U6'' \<notin> fst ` set kvs"
  shows "la_inv (kvs @ (case W of None \<Rightarrow> [] | Some w \<Rightarrow> [(''U6'', 0.9 * D + 1.0 * to_float w)]))
     (combination_6 D W st)"
  using assms by (cases W) (simp_all add: combination_6_def la_inv_add)

lemma la_inv_combination_7:
  assumes "la_inv kvs st" and "''U7'' \<notin> fst ` set kvs"
  shows "la_inv (kvs @ (case E of None \<Rightarrow> [] | Some e \<Rightarrow> [(''U7'', 0.9 * D + 1.0 * to_float e)]))
     (combination_7 D E st)"
  using assms by (cases E) (simp_all add: combination_7_def la_inv_add)

lemma la_inv_body:
  assumes c3: "combination_3 D L Lr S R W
                 (combination_2 D L Lr S R (combination_1 D (la_initialize_results ps, [])))
               = Inr st3"
  shows "la_inv (combination_table D L Lr S R W E)
     (combination_7 D E (combination_6 D W (combination_5 D L S E
        (combination_4 D L Lr S R W st3))))"
proof -
  note g1 = la_inv_combination_1 [of D ps]
  have g2: "la_inv ([(''U1'', 1.4 * D)] @ (case L of None \<Rightarrow> []
        | Some l \<Rightarrow> [(''U2'', 1.2 * D + 1.6 * to_float l
                          + 0.5 * py_max_default (filter_None [Lr, S, R]) 0)]))
      (combination_2 D L Lr S R (combination_1 D (la_initialize_results ps, [])))"
    by (rule la_inv_combination_2 [OF g1]) simp
  have g3': "la_inv (([(''U1'', 1.4 * D)] @ (case L of None \<Rightarrow> []
        | Some l \<Rightarrow> [(''U2'', 1.2 * D + 1.6 * to_float l
                          + 0.5 * py_max_default (filter_None [Lr, S, R]) 0)]))
       @ (if list_ex truthy [Lr, S, R]
        then [(''U3'', 1.2 * D + 1.6 * py_max_default (filter_None [Lr, S, R]) 0
                          + py_max_default (filter_None [L, half_if_truthy W]) 0)]
        else [])) st3"
    by (rule la_inv_combination_3 [OF g2 _ c3]) (auto split: option.splits)
  have g4': "la_inv ((([(''U1'', 1.4 * D)] @ (case L of None \<Rightarrow> []
        | Some l \<Rightarrow> [(''U2'', 1.2 * D + 1.6 * to_float l
                          + 0.5 * py_max_default (filter_None [Lr, S, R]) 0)]))
       @ (if list_ex truthy [Lr, S, R]
        then [(''U3'', 1.2 * D + 1.6 * py_max_default (filter_None [Lr, S, R]) 0
                          + py_max_default (filter_None [L, half_if_truthy W]) 0)]
        else []))
       @ (case W of None \<Rightarrow> []
        | Some w \<Rightarrow> [(''U4'', 1.2 * D + 1.0 * to_float w + or_zero L
                          + 0.5 * py_max_default (filter_None [Lr, S, R]) 0)]))
     (combination_4 D L Lr S R W st3)"
    by (rule la_inv_combination_4 [OF g3']) (auto split: option.splits)
  have g5': "la_inv (((([(''U1'', 1.4 * D)] @ (case L of None \<Rightarrow> []
        | Some l \<Rightarrow> [(''U2'', 1.2 * D + 1.6 * to_float l
                          + 0.5 * py_max_default (filter_None [Lr, S, R]) 0)]))
       @ (if list_ex truthy [Lr, S, R]
        then [(''U3'', 1.2 * D + 1.6 * py_max_default (filter_None [Lr, S, R]) 0
                          + py_max_default (filter_None [L, half_if_truthy W]) 0)]
        else []))
       @ (case W of None \<Rightarrow> []
        | Some w \<Rightarrow> [(''U4'', 1.2 * D + 1.0 * to_float w + or_zero L
                          + 0.5 * py_max_default (filter_None [Lr, S, R]) 0)]))
       @ (case E of None \<Rightarrow> []
        | Some e \<Rightarrow> [(''U5'', 1.2 * D + 1.0 * to_float e + or_zero L + 0.2 * or_zero S)]))
     (combination_5 D L S E (combination_4 D L Lr S R W st3))"
    by (rule la_inv_combination_5 [OF g4']) (auto split: option.splits)
  have g6': "la_inv ((((([(''U1'', 1.4 * D)] @ (case L of None \<Rightarrow> []
        | Some l \<Rightarrow> [(''U2'', 1.2 * D + 1.6 * to_float l
                          + 0.5 * py_max_default (filter_None [Lr, S, R]) 0)]))
       @ (if list_ex truthy [Lr, S, R]
        then [(''U3'', 1.2 * D + 1.6 * py_max_default (filter_None [Lr, S, R]) 0
                          + py_max_default (filter_None [L, half_if_truthy W]) 0)]
        else []))
       @ (case W of None \<Rightarrow> []
        | Some w \<Rightarrow> [(''U4'', 1.2 * D + 1.0 * to_float w + or_zero L
                          + 0.5 * py_max_default (filter_None [Lr, S, R]) 0)]))
       @ (case E of None \<Rightarrow> []
        | Some e \<Rightarrow> [(''U5'', 1.2 * D + 1.0 * to_float e + or_zero L + 0.2 * or_zero S)]))
       @ (case W of None \<Rightarrow> [] | Some w \<Rightarrow> [(''U6'', 0.9 * D + 1.0 * to_float w)]))
     (combination_6 D W (combination_5 D L S E (combination_4 D L Lr S R W st3)))"
    by (rule la_inv_combination_6 [OF g5']) (auto split: option.splits)
  have "la_inv (((((([(''U1'', 1.4 * D)] @ (case L of None \<Rightarrow> []
        | Some l \<Rightarrow> [(''U2'', 1.2 * D + 1.6 * to_float l
                          + 0.5 * py_max_default (filter_None [Lr, S, R]) 0)]))
       @ (if list_ex truthy [Lr, S, R]
        then [(''U3'', 1.2 * D + 1.6 * py_max_default (filter_None [Lr, S, R]) 0
                          + py_max_default (filter_None [L, half_if_truthy W]) 0)]
        else []))
       @ (case W of None \<Rightarrow> []
        | Some w \<Rightarrow> [(''U4'', 1.2 * D + 1.0 * to_float w + or_zero L
                          + 0.5 * py_max_default (filter_None [Lr, S, R]) 0)]))
       @ (case E of None \<Rightarrow> []
        | Some e \<Rightarrow> [(''U5'', 1.2 * D + 1.0 * to_float e + or_zero L + 0.2 * or_zero S)]))
       @ (case W of None \<Rightarrow> [] | Some w \<Rightarrow> [(''U6'', 0.9 * D + 1.0 * to_float w)]))
       @ (case E of None \<Rightarrow> [] | Some e \<Rightarrow> [(''U7'', 0.9 * D + 1.0 * to_float e)]))
     (combination_7 D E (combination_6 D W (combination_5 D L S E
        (combination_4 D L Lr S R W st3))))"
    by (rule la_inv_combination_7 [OF g6']) (auto split: option.splits)
  then show ?thesis
    unfolding combination_table_def by (simp only: append_assoc)
qed


lemma find_controlling_values:
  "find_controlling lcs m =
     first_with_value (map (\<lambda>(key, combo). (key, lc_value combo)) lcs) m"
  by (induction lcs) auto

lemma set_controlling_load_inv:
  assumes "la_inv kvs st" and "kvs \<noteq> []"
  shows "combination_values (set_controlling_load (fst st) (snd st)) = kvs"
    and "lr_controlling_load (set_controlling_load (fst st) (snd st)) =
           first_with_value kvs (py_max_default (map snd kvs) 0)"
proof -
  obtain results combinations where st: "st = (results, combinations)" by (cases st)
  have vals: "combination_values results = kvs"
    and combs: "combinations = map snd kvs" and ctl: "lr_controlling_load results = None"
    using assms(1) by (simp_all add: la_inv_def st)
  obtain kv rest where kvs: "kvs = kv # rest" using assms(2) by (cases kvs) auto
  have fc: "find_controlling (lr_load_combinations results) m = first_with_value kvs m" for m
    using vals by (simp add: find_controlling_values combination_values_def)
  show "combination_values (set_controlling_load (fst st) (snd st)) = kvs"
    using vals
    by (simp add: st set_controlling_load_def combs kvs combination_values_def
        split: option.splits)
  show "lr_controlling_load (set_controlling_load (fst st) (snd st)) =
           first_with_value kvs (py_max_default (map snd kvs) 0)"
    using ctl
    by (simp add: st set_controlling_load_def combs fc py_max_default_def kvs
        split: option.splits)
qed

lemma la_validate_inputs_Inr:
  "la_validate_inputs ps = Inr dead \<longleftrightarrow> ps ''dead_load'' = Some (Some dead) \<and> 0 < to_float dead"
  by (auto simp: la_validate_inputs_def validate_numeric_positive_def
      split: option.splits if_splits)

lemma combination_table_not_Nil: "combination_table D L Lr S R W E \<noteq> []"
  by (simp add: combination_table_def)


lemma LoadAnalysis_design_unfold:
  assumes "la_validate_inputs ps = Inr dead"
  shows "LoadAnalysis_design ps =
    (case combination_3 (to_float dead) (py_get ps ''live_load'')
           (py_get ps ''roof_live_load'') (py_get ps ''snow_load'') (py_get ps ''rain_load'')
           (py_get ps ''wind_load'')
           (combination_2 (to_float dead) (py_get ps ''live_load'')
              (py_get ps ''roof_live_load'') (py_get ps ''snow_load'')
              (py_get ps ''rain_load'')
              (combination_1 (to_float dead) (la_initialize_results ps, []))) of
       Inl e \<Rightarrow> Inl (DesignError la_step_name (str_exn e))
     | Inr st3 \<Rightarrow>
         Inr (set_controlling_load
          (fst (combination_7 (to_float dead) (py_get ps ''seismic_load'')
             (combination_6 (to_float dead) (py_get ps ''wind_load'')
               (combination_5 (to_float dead) (py_get ps ''live_load'')
                  (py_get ps ''snow_load'') (py_get ps ''seismic_load'')
                  (combination_4 (to_float dead) (py_get ps ''live_load'')
                     (py_get ps ''roof_live_load'') (py_get ps ''snow_load'')
                     (py_get ps ''rain_load'') (py_get ps ''wind_load'') st3)))))
          (snd (combination_7 (to_float dead) (py_get ps ''seismic_load'')
             (combination_6 (to_float dead) (py_get ps ''wind_load'')
               (combination_5 (to_float dead) (py_get ps ''live_load'')
                  (py_get ps ''snow_load'') (py_get ps ''seismic_load'')
                  (combination_4 (to_float dead) (py_get ps ''live_load'')
                     (py_get ps ''roof_live_load'') (py_get ps ''snow_load'')
                     (py_get ps ''rain_load'') (py_get ps ''wind_load'') st3)))))))"
  unfolding LoadAnalysis_design_def wrap_design_def bind_exn_def Let_def assms
  by (simp split: sum.splits)


lemma LoadAnalysis_design_validated:
  assumes "LoadAnalysis_design ps = Inr r"
  shows "\<exists>dead. la_validate_inputs ps = Inr dead"
proof (cases "la_validate_inputs ps")
  case (Inl e)
  then have "LoadAnalysis_design ps = Inl (DesignError la_step_name (str_exn e))"
    unfolding LoadAnalysis_design_def wrap_design_def bind_exn_def by simp
  with assms show ?thesis by simp
next
  case (Inr dead)
  then show ?thesis by blast
qed

lemma LoadAnalysis_design_Inr:
  assumes "LoadAnalysis_design ps = Inr r"
  shows "\<exists>dead. la_validate_inputs ps = Inr dead
     \<and> combination_values r =
         combination_table (to_float dead) (py_get ps ''live_load'')
           (py_get ps ''roof_live_load'') (py_get ps ''snow_load'') (py_get ps ''rain_load'')
           (py_get ps ''wind_load'') (py_get ps ''seismic_load'')
     \<and> lr_controlling_load r =
         first_with_value (combination_values r)
           (py_max_default (map snd (combination_values r)) 0)"
proof -
  from LoadAnalysis_design_validated [OF assms]
  obtain dead where v: "la_validate_inputs ps = Inr dead" by blast
  let ?c3 = "combination_3 (to_float dead) (py_get ps ''live_load'')
           (py_get ps ''roof_live_load'') (py_get ps ''snow_load'') (py_get ps ''rain_load'')
           (py_get ps ''wind_load'')
           (combination_2 (to_float dead) (py_get ps ''live_load'')
              (py_get ps ''roof_live_load'') (py_get ps ''snow_load'')
              (py_get ps ''rain_load'')
              (combination_1 (to_float dead) (la_initialize_results ps, [])))"
  note unf = LoadAnalysis_design_unfold [OF v]
  show ?thesis
  proof (cases ?c3)
    case (Inl e)
    with unf assms show ?thesis by simp
  next
    case (Inr st3)
    note g = la_inv_body [OF Inr, of "py_get ps ''seismic_load''"]
    note sc = set_controlling_load_inv [OF g combination_table_not_Nil]
    from unf assms have r: "r = set_controlling_load
          (fst (combination_7 (to_float dead) (py_get ps ''seismic_load'')
             (combination_6 (to_float dead) (py_get ps ''wind_load'')
               (combination_5 (to_float dead) (py_get ps ''live_load'')
                  (py_get ps ''snow_load'') (py_get ps ''seismic_load'')
                  (combination_4 (to_float dead) (py_get ps ''live_load'')
                     (py_get ps ''roof_live_load'') (py_get ps ''snow_load'')
                     (py_get ps ''rain_load'') (py_get ps ''wind_load'') st3)))))
          (snd (combination_7 (to_float dead) (py_get ps ''seismic_load'')
             (combination_6 (to_float dead) (py_get ps ''wind_load'')
               (combination_5 (to_float dead) (py_get ps ''live_load'')
                  (py_get ps ''snow_load'') (py_get ps ''seismic_load'')
                  (combination_4 (to_float dead) (py_get ps ''live_load'')
                     (py_get ps ''roof_live_load'') (py_get ps ''snow_load'')
                     (py_get ps ''rain_load'') (py_get ps ''wind_load'') st3)))))"
      unfolding Inr by simp
    from sc [folded r] v show ?thesis by simp
  qed
qed


lemma filter_None_Nil: "filter_None vs = [] \<longleftrightarrow> \<not> list_ex truthy vs"
  by (induction vs rule: filter_None.induct) auto

lemma truthy_half_if_truthy: "truthy (half_if_truthy W) = truthy W"
  by (cases W) (simp_all add: half_if_truthy_def)

lemma combination_3_fails:
  assumes "list_ex truthy [Lr, S, R]" and "\<not> truthy L" and "\<not> truthy W"
  shows "combination_3 D L Lr S R W st = Inl (ValueError ''max() arg is an empty sequence'')"
proof -
  have p1: "filter_None [Lr, S, R] \<noteq> []"
    using assms(1) by (simp only: filter_None_Nil) simp
  have p2: "filter_None [L, half_if_truthy W] = []"
    using assms(2,3) by (simp only: filter_None_Nil) (simp add: truthy_half_if_truthy)
  show ?thesis
    using p1 assms(1) unfolding combination_3_def bind_exn_def p2
    by (simp add: py_max_def split: list.splits)
qed

lemma combination_3_succeeds:
  assumes "list_ex truthy [Lr, S, R] \<longrightarrow> truthy L \<or> truthy W"
  shows "\<exists>st'. combination_3 D L Lr S R W st = Inr st'"
proof (cases "list_ex truthy [Lr, S, R]")
  case False
  then show ?thesis unfolding combination_3_def by simp
next
  case True
  then have p1: "filter_None [Lr, S, R] \<noteq> []"
    by (simp only: filter_None_Nil) simp
  from True assms have "list_ex truthy [L, half_if_truthy W]"
    by (simp add: truthy_half_if_truthy)
  then have p2: "filter_None [L, half_if_truthy W] \<noteq> []"
    by (simp only: filter_None_Nil) simp
  from p1 p2 True show ?thesis
    unfolding combination_3_def bind_exn_def
    by (simp add: py_max_def split: list.splits)
qed

lemma LoadAnalysis_design_fails:
  assumes "la_validate_inputs ps = Inr dead"
    and "list_ex truthy [py_get ps ''roof_live_load'', py_get ps ''snow_load'',
           py_get ps ''rain_load'']"
    and "\<not> truthy (py_get ps ''live_load'')" and "\<not> truthy (py_get ps ''wind_load'')"
  shows "LoadAnalysis_design ps =
     Inl (DesignError ''load_analysis'' ''max() arg is an empty sequence'')"
  unfolding LoadAnalysis_design_unfold [OF assms(1)]
    combination_3_fails [OF assms(2) assms(3) assms(4)]
  by (simp add: la_step_name_def)

lemma LoadAnalysis_design_succeeds:
  assumes "la_validate_inputs ps = Inr dead"
    and "list_ex truthy [py_get ps ''roof_live_load'', py_get ps ''snow_load'',
           py_get ps ''rain_load'']
         \<longrightarrow> truthy (py_get ps ''live_load'') \<or> truthy (py_get ps ''wind_load'')"
  shows "\<exists>r. LoadAnalysis_design ps = Inr r"
proof -
  from combination_3_succeeds [OF assms(2)]
  obtain st3 where "combination_3 (to_float dead) (py_get ps ''live_load'')
           (py_get ps ''roof_live_load'') (py_get ps ''snow_load'') (py_get ps ''rain_load'')
           (py_get ps ''wind_load'')
           (combination_2 (to_float dead) (py_get ps ''live_load'')
              (py_get ps ''roof_live_load'') (py_get ps ''snow_load'')
              (py_get ps ''rain_load'')
              (combination_1 (to_float dead) (la_initialize_results ps, []))) = Inr st3"
    by blast
  then show ?thesis
    unfolding LoadAnalysis_design_unfold [OF assms(1)] by simp
qed

lemma first_with_value_first:
  assumes "m \<in> snd ` set kvs"
  shows "\<exists>i<length kvs. first_with_value kvs m =
            Some \<lparr>cl_combination = fst (kvs ! i), cl_value = m, cl_units = ''kip/ft''\<rparr>
          \<and> snd (kvs ! i) = m \<and> (\<forall>j<i. snd (kvs ! j) \<noteq> m)"
  using assms
proof (induction kvs)
  case Nil
  then show ?case by simp
next
  case (Cons kv kvs)
  obtain k v where kv: "kv = (k, v)" by (cases kv)
  show ?case
  proof (cases "v = m")
    case True
    then have "first_with_value (kv # kvs) m =
            Some \<lparr>cl_combination = fst ((kv # kvs) ! 0), cl_value = m, cl_units = ''kip/ft''\<rparr>
          \<and> snd ((kv # kvs) ! 0) = m \<and> (\<forall>j<0. snd ((kv # kvs) ! j) \<noteq> m)"
      by (simp add: kv)
    then show ?thesis by blast
  next
    case False
    with Cons.prems have "m \<in> snd ` set kvs" by (auto simp: kv)
    from Cons.IH [OF this] obtain i where i: "i < length kvs"
      "first_with_value kvs m =
            Some \<lparr>cl_combination = fst (kvs ! i), cl_value = m, cl_units = ''kip/ft''\<rparr>"
      "snd (kvs ! i) = m" "\<forall>j<i. snd (kvs ! j) \<noteq> m"
      by blast
    have "\<forall>j<Suc i. snd ((kv # kvs) ! j) \<noteq> m"
      using i(4) False by (auto simp: kv less_Suc_eq_0_disj)
    with i False have "Suc i < length (kv # kvs) \<and> first_with_value (kv # kvs) m =
            Some \<lparr>cl_combination = fst ((kv # kvs) ! Suc i), cl_value = m,
                  cl_units = ''kip/ft''\<rparr>
          \<and> snd ((kv # kvs) ! Suc i) = m \<and> (\<forall>j<Suc i. snd ((kv # kvs) ! j) \<noteq> m)"
      by (simp add: kv)
    then show ?thesis by blast
  qed
qed

lemma py_max_default_Max:
  assumes "xs \<noteq> []"
  shows "py_max_default xs d = Max (set xs)"
proof (cases xs)
  case Nil
  with assms show ?thesis by simp
next
  case (Cons a list)
  have "Max (set (a # list)) = fold max list a" by (rule Max.set_eq_fold)
  then show ?thesis by (simp add: py_max_default_def Cons)
qed

lemma first_with_value_max:
  assumes "kvs \<noteq> []"
  shows "\<exists>i<length kvs. first_with_value kvs (py_max_default (map snd kvs) 0) =
            Some \<lparr>cl_combination = fst (kvs ! i), cl_value = snd (kvs ! i),
                  cl_units = ''kip/ft''\<rparr>
          \<and> (\<forall>j<length kvs. snd (kvs ! j) \<le> snd (kvs ! i))
          \<and> (\<forall>j<i. snd (kvs ! j) < snd (kvs ! i))"
proof -
  define m where "m = Max (set (map snd kvs))"
  have mm: "py_max_default (map snd kvs) 0 = m"
    unfolding m_def using assms by (simp add: py_max_default_Max)
  have "m \<in> set (map snd kvs)"
    unfolding m_def using assms by (intro Max_in) simp_all
  then have "m \<in> snd ` set kvs" by simp
  from first_with_value_first [OF this] obtain i where i: "i < length kvs"
      "first_with_value kvs m =
            Some \<lparr>cl_combination = fst (kvs ! i), cl_value = m, cl_units = ''kip/ft''\<rparr>"
      "snd (kvs ! i) = m" "\<forall>j<i. snd (kvs ! j) \<noteq> m"
    by blast
  have le: "snd (kvs ! j) \<le> m" if "j < length kvs" for j
    unfolding m_def using that by (intro Max_ge) simp_all
  have "\<forall>j<i. snd (kvs ! j) < m"
  proof (intro allI impI)
    fix j assume "j < i"
    with i(1,4) le [of j] show "snd (kvs ! j) < m" by fastforce
  qed
  with i le show ?thesis unfolding mm by auto
qed


lemma combination_table_keys:
  "map fst (combination_table D L Lr S R W E) =
     filter (\<lambda>k. k = ''U1'' \<or> (k = ''U2'' \<and> L \<noteq> None)
                \<or> (k = ''U3'' \<and> list_ex truthy [Lr, S, R])
                \<or> (k = ''U4'' \<and> W \<noteq> None) \<or> (k = ''U5'' \<and> E \<noteq> None)
                \<or> (k = ''U6'' \<and> W \<noteq> None) \<or> (k = ''U7'' \<and> E \<noteq> None))
       [''U1'', ''U2'', ''U3'', ''U4'', ''U5'', ''U6'', ''U7'']"
  by (cases L; cases W; cases E) (simp_all add: combination_table_def)

lemma combination_values_nth:
  assumes "i < length (lr_load_combinations r)"
  shows "combination_values r ! i =
     (fst (lr_load_combinations r ! i), lc_value (snd (lr_load_combinations r ! i)))"
  using assms by (simp add: combination_values_def case_prod_beta)

text \<open>
  Claim C6. Whenever \<open>LoadAnalysis.design\<close> returns, the controlling load names an
  entry of \<open>load_combinations\<close> and carries its value; no entry has a larger value, every
  entry before it in insertion order has a strictly smaller one, and the insertion order
  of the keys is the order U1, ..., U7. So the controlling load is the first entry, in
  that order, that attains the maximum.
\<close>

theorem LoadAnalysis_controlling_first_maximum:
  assumes "LoadAnalysis_design ps = Inr r"
  shows "\<exists>i<length (lr_load_combinations r).
      lr_controlling_load r =
        Some \<lparr>cl_combination = fst (lr_load_combinations r ! i),
              cl_value = lc_value (snd (lr_load_combinations r ! i)),
              cl_units = ''kip/ft''\<rparr>
      \<and> (\<forall>j<length (lr_load_combinations r).
            lc_value (snd (lr_load_combinations r ! j))
              \<le> lc_value (snd (lr_load_combinations r ! i)))
      \<and> (\<forall>j<i. lc_value (snd (lr_load_combinations r ! j))
              < lc_value (snd (lr_load_combinations r ! i)))
      \<and> map fst (lr_load_combinations r) =
          filter (\<lambda>k. k \<in> fst ` set (lr_load_combinations r))
            [''U1'', ''U2'', ''U3'', ''U4'', ''U5'', ''U6'', ''U7'']"
proof -
  from LoadAnalysis_design_Inr [OF assms] obtain dead
    where tab: "combination_values r =
         combination_table (to_float dead) (py_get ps ''live_load'')
           (py_get ps ''roof_live_load'') (py_get ps ''snow_load'') (py_get ps ''rain_load'')
           (py_get ps ''wind_load'') (py_get ps ''seismic_load'')"
      and ctl: "lr_controlling_load r =
         first_with_value (combination_values r)
           (py_max_default (map snd (combination_values r)) 0)"
    by blast
  have len: "length (combination_values r) = length (lr_load_combinations r)"
    by (simp add: combination_values_def)
  have ne: "combination_values r \<noteq> []"
    unfolding tab by (rule combination_table_not_Nil)
  from first_with_value_max [OF ne] obtain i where i: "i < length (combination_values r)"
    "first_with_value (combination_values r)
       (py_max_default (map snd (combination_values r)) 0) =
            Some \<lparr>cl_combination = fst (combination_values r ! i),
                  cl_value = snd (combination_values r ! i), cl_units = ''kip/ft''\<rparr>"
    "\<forall>j<length (combination_values r).
        snd (combination_values r ! j) \<le> snd (combination_values r ! i)"
    "\<forall>j<i. snd (combination_values r ! j) < snd (combination_values r ! i)"
    by blast
  have keys: "map fst (lr_load_combinations r) = map fst (combination_values r)"
    by (simp add: combination_values_def case_prod_beta)
  have order: "map fst (lr_load_combinations r) =
          filter (\<lambda>k. k \<in> fst ` set (lr_load_combinations r))
            [''U1'', ''U2'', ''U3'', ''U4'', ''U5'', ''U6'', ''U7'']"
  proof -
    have "map fst (combination_values r) =
          filter (\<lambda>k. k \<in> set (map fst (combination_values r)))
            [''U1'', ''U2'', ''U3'', ''U4'', ''U5'', ''U6'', ''U7'']"
      unfolding tab combination_table_keys by simp
    then show ?thesis unfolding keys [symmetric] by simp
  qed
  have i': "i < length (lr_load_combinations r)" using i(1) len by simp
  have "lr_controlling_load r =
        Some \<lparr>cl_combination = fst (lr_load_combinations r ! i),
              cl_value = lc_value (snd (lr_load_combinations r ! i)),
              cl_units = ''kip/ft''\<rparr>"
    using ctl i(2) by (simp add: combination_values_nth [OF i'])
  moreover have "\<forall>j<length (lr_load_combinations r).
            lc_value (snd (lr_load_combinations r ! j))
              \<le> lc_value (snd (lr_load_combinations r ! i))"
    using i(3) i' by (simp add: len combination_values_nth)
  moreover have "\<forall>j<i. lc_value (snd (lr_load_combinations r ! j))
              < lc_value (snd (lr_load_combinations r ! i))"
    using i(4) i' by (simp add: combination_values_nth)
  ultimately show ?thesis using i' order by blast
qed

text \<open>
  The hypothesis is met by \<open>{dead_load: 8, live_load: 1}\<close>, where U1 and U2 tie at 11.2
  and U1, the earlier one, is reported.
\<close>

lemma tie_loads_get:
  "py_get tie_loads ''live_load'' = Some (PInt 1)"
  "py_get tie_loads ''roof_live_load'' = None"
  "py_get tie_loads ''snow_load'' = None"
  "py_get tie_loads ''rain_load'' = None"
  "py_get tie_loads ''wind_load'' = None"
  "py_get tie_loads ''seismic_load'' = None"
  "la_validate_inputs tie_loads = Inr (PInt 8)"
  by (simp_all add: tie_loads_def py_get_def la_validate_inputs_Inr)

lemma tie_loads_table:
  "combination_table 8 (Some (PInt 1)) None None None None None =
     [(''U1'', 56 / 5), (''U2'', 56 / 5)]"
  by (simp add: combination_table_def py_max_default_def or_zero_def)

lemma tie_loads_controlling:
  assumes r: "LoadAnalysis_design tie_loads = Inr r"
  shows "lr_controlling_load r =
         Some \<lparr>cl_combination = ''U1'', cl_value = 56 / 5, cl_units = ''kip/ft''\<rparr>"
proof -
  from LoadAnalysis_design_Inr [OF r] have
    tab: "combination_values r = [(''U1'', 56 / 5), (''U2'', 56 / 5)]"
    and ctl: "lr_controlling_load r =
         first_with_value (combination_values r)
           (py_max_default (map snd (combination_values r)) 0)"
    by (auto simp: tie_loads_get tie_loads_table)
  show ?thesis unfolding ctl tab by (simp add: py_max_default_def)
qed

theorem LoadAnalysis_controlling_first_maximum_witness:
  "\<exists>r. LoadAnalysis_design tie_loads = Inr r
     \<and> lr_controlling_load r =
         Some \<lparr>cl_combination = ''U1'', cl_value = 56 / 5, cl_units = ''kip/ft''\<rparr>
     \<and> (\<exists>i<length (lr_load_combinations r).
          lr_controlling_load r =
            Some \<lparr>cl_combination = fst (lr_load_combinations r ! i),
                  cl_value = lc_value (snd (lr_load_combinations r ! i)),
                  cl_units = ''kip/ft''\<rparr>
          \<and> (\<forall>j<length (lr_load_combinations r).
                lc_value (snd (lr_load_combinations r ! j))
                  \<le> lc_value (snd (lr_load_combinations r ! i)))
          \<and> (\<forall>j<i. lc_value (snd (lr_load_combinations r ! j))
                  < lc_value (snd (lr_load_combinations r ! i)))
          \<and> map fst (lr_load_combinations r) =
              filter (\<lambda>k. k \<in> fst ` set (lr_load_combinations r))
                [''U1'', ''U2'', ''U3'', ''U4'', ''U5'', ''U6'', ''U7''])"
proof -
  from LoadAnalysis_design_succeeds [OF tie_loads_get(7)]
  obtain r where r: "LoadAnalysis_design tie_loads = Inr r" by (auto simp: tie_loads_get)
  show ?thesis
    by (intro exI [of _ r] conjI r tie_loads_controlling [OF r]
          LoadAnalysis_controlling_first_maximum [OF r])
qed

lemma truthy_iff: "truthy v \<longleftrightarrow> (\<exists>x. v = Some x \<and> to_float x \<noteq> 0)"
  by (cases v) simp_all

lemma filter_None_set:
  "set (filter_None vs) = {to_float x |x. Some x \<in> set vs \<and> to_float x \<noteq> 0}"
  by (induction vs rule: filter_None.induct) auto

text \<open>
  Claim C10. Whenever \<open>LoadAnalysis.design\<close> returns: U3 is among the combinations
  exactly when one of \<open>roof_live_load\<close>, \<open>snow_load\<close>, \<open>rain_load\<close> is supplied with a
  non-zero value (a zero counts as absent), whereas U2 is there exactly when \<open>live_load\<close>
  is not \<open>None\<close>, U4 and U6 exactly when \<open>wind_load\<close> is not \<open>None\<close>, U5 and U7 exactly
  when \<open>seismic_load\<close> is not \<open>None\<close> (a zero counts as present); and the pool the
  maxima over Lr, S, R are taken of holds the non-zero values only.
\<close>

theorem LoadAnalysis_inclusion_conditions:
  assumes "LoadAnalysis_design ps = Inr r"
  shows "(''U3'' \<in> fst ` set (lr_load_combinations r) \<longleftrightarrow>
            (\<exists>x. py_get ps ''roof_live_load'' = Some x \<and> to_float x \<noteq> 0)
          \<or> (\<exists>x. py_get ps ''snow_load'' = Some x \<and> to_float x \<noteq> 0)
          \<or> (\<exists>x. py_get ps ''rain_load'' = Some x \<and> to_float x \<noteq> 0))
     \<and> (''U2'' \<in> fst ` set (lr_load_combinations r) \<longleftrightarrow> py_get ps ''live_load'' \<noteq> None)
     \<and> (''U4'' \<in> fst ` set (lr_load_combinations r) \<longleftrightarrow> py_get ps ''wind_load'' \<noteq> None)
     \<and> (''U5'' \<in> fst ` set (lr_load_combinations r) \<longleftrightarrow> py_get ps ''seismic_load'' \<noteq> None)
     \<and> (''U6'' \<in> fst ` set (lr_load_combinations r) \<longleftrightarrow> py_get ps ''wind_load'' \<noteq> None)
     \<and> (''U7'' \<in> fst ` set (lr_load_combinations r) \<longleftrightarrow> py_get ps ''seismic_load'' \<noteq> None)
     \<and> set (filter_None [py_get ps ''roof_live_load'', py_get ps ''snow_load'',
                          py_get ps ''rain_load''])
         = {to_float x |x. Some x \<in> {py_get ps ''roof_live_load'', py_get ps ''snow_load'',
                                      py_get ps ''rain_load''} \<and> to_float x \<noteq> 0}"
proof -
  from LoadAnalysis_design_Inr [OF assms] obtain dead
    where tab: "combination_values r =
         combination_table (to_float dead) (py_get ps ''live_load'')
           (py_get ps ''roof_live_load'') (py_get ps ''snow_load'') (py_get ps ''rain_load'')
           (py_get ps ''wind_load'') (py_get ps ''seismic_load'')"
    by blast
  have "map fst (lr_load_combinations r) = map fst (combination_values r)"
    by (simp add: combination_values_def case_prod_beta)
  then have keys: "fst ` set (lr_load_combinations r) =
      set (map fst (combination_table (to_float dead) (py_get ps ''live_load'')
           (py_get ps ''roof_live_load'') (py_get ps ''snow_load'') (py_get ps ''rain_load'')
           (py_get ps ''wind_load'') (py_get ps ''seismic_load'')))"
    unfolding tab [symmetric] by (metis set_map)
  have any3: "list_ex truthy [py_get ps ''roof_live_load'', py_get ps ''snow_load'',
           py_get ps ''rain_load''] \<longleftrightarrow>
            (\<exists>x. py_get ps ''roof_live_load'' = Some x \<and> to_float x \<noteq> 0)
          \<or> (\<exists>x. py_get ps ''snow_load'' = Some x \<and> to_float x \<noteq> 0)
          \<or> (\<exists>x. py_get ps ''rain_load'' = Some x \<and> to_float x \<noteq> 0)"
    by (simp add: truthy_iff)
  show ?thesis
    unfolding keys combination_table_keys any3 [symmetric] filter_None_set
    by simp
qed

text \<open>
  The hypothesis is met by a dead load of 2.5 with \<open>live_load\<close>, \<open>snow_load\<close>,
  \<open>wind_load\<close> and \<open>seismic_load\<close> all given as 0: every combination but U3 is there.
\<close>

lemma zero_loads_get:
  "py_get zero_loads ''live_load'' = Some (PInt 0)"
  "py_get zero_loads ''roof_live_load'' = None"
  "py_get zero_loads ''snow_load'' = Some (PInt 0)"
  "py_get zero_loads ''rain_load'' = None"
  "py_get zero_loads ''wind_load'' = Some (PInt 0)"
  "py_get zero_loads ''seismic_load'' = Some (PInt 0)"
  "la_validate_inputs zero_loads = Inr (PFloat 2.5)"
  by (simp_all add: zero_loads_def py_get_def la_validate_inputs_Inr)

theorem LoadAnalysis_inclusion_conditions_witness:
  "\<exists>r. LoadAnalysis_design zero_loads = Inr r
     \<and> ''U3'' \<notin> fst ` set (lr_load_combinations r)
     \<and> ''U2'' \<in> fst ` set (lr_load_combinations r)
     \<and> ''U4'' \<in> fst ` set (lr_load_combinations r)
     \<and> ''U5'' \<in> fst ` set (lr_load_combinations r)
     \<and> ''U6'' \<in> fst ` set (lr_load_combinations r)
     \<and> ''U7'' \<in> fst ` set (lr_load_combinations r)"
proof -
  from LoadAnalysis_design_succeeds [OF zero_loads_get(7)]
  obtain r where r: "LoadAnalysis_design zero_loads = Inr r" by (auto simp: zero_loads_get)
  from LoadAnalysis_inclusion_conditions [OF r]
  have "''U3'' \<notin> fst ` set (lr_load_combinations r)
     \<and> ''U2'' \<in> fst ` set (lr_load_combinations r)
     \<and> ''U4'' \<in> fst ` set (lr_load_combinations r)
     \<and> ''U5'' \<in> fst ` set (lr_load_combinations r)
     \<and> ''U6'' \<in> fst ` set (lr_load_combinations r)
     \<and> ''U7'' \<in> fst ` set (lr_load_combinations r)"
    by (simp add: zero_loads_get)
  with r show ?thesis by (intro exI [of _ r] conjI) simp_all
qed

lemma example_loads_get:
  "py_get example_loads ''live_load'' = Some (PFloat 1.8)"
  "py_get example_loads ''roof_live_load'' = None"
  "py_get example_loads ''snow_load'' = None"
  "py_get example_loads ''rain_load'' = None"
  "py_get example_loads ''wind_load'' = Some (PFloat 4.2)"
  "py_get example_loads ''seismic_load'' = None"
  "la_validate_inputs example_loads = Inr (PFloat 2.5)"
  by (simp_all add: example_loads_def py_get_def la_validate_inputs_Inr)

lemma example_loads_table:
  "combination_table (5 / 2) (Some (PFloat (9 / 5))) None None None
       (Some (PFloat (21 / 5))) None =
     [(''U1'', 7 / 2), (''U2'', 147 / 25), (''U4'', 9), (''U6'', 129 / 20)]"
  by (simp add: combination_table_def py_max_default_def or_zero_def)

text \<open>
  Claim C4. \<open>LoadAnalysis.design({dead_load: 2.5, live_load: 1.8, wind_load: 4.2})\<close>
  returns a result whose combinations are U1, U2, U4 and U6, in that order and no
  others, and whose controlling load is U4 with value 9.0 kip/ft.
\<close>

theorem LoadAnalysis_design_example:
  "\<exists>r. LoadAnalysis_design
          [''dead_load'' \<mapsto> Some (PFloat 2.5), ''live_load'' \<mapsto> Some (PFloat 1.8),
           ''wind_load'' \<mapsto> Some (PFloat 4.2)] = Inr r
     \<and> map fst (lr_load_combinations r) = [''U1'', ''U2'', ''U4'', ''U6'']
     \<and> lr_controlling_load r =
         Some \<lparr>cl_combination = ''U4'', cl_value = 9, cl_units = ''kip/ft''\<rparr>"
proof -
  from LoadAnalysis_design_succeeds [OF example_loads_get(7)]
  obtain r where r: "LoadAnalysis_design example_loads = Inr r" by (auto simp: example_loads_get)
  from LoadAnalysis_design_Inr [OF r] have
    tab: "combination_values r =
            [(''U1'', 7 / 2), (''U2'', 147 / 25), (''U4'', 9), (''U6'', 129 / 20)]"
    and ctl: "lr_controlling_load r =
         first_with_value (combination_values r)
           (py_max_default (map snd (combination_values r)) 0)"
    by (auto simp: example_loads_get example_loads_table)
  have "map fst (lr_load_combinations r) = map fst (combination_values r)"
    by (simp add: combination_values_def case_prod_beta)
  then have k: "map fst (lr_load_combinations r) = [''U1'', ''U2'', ''U4'', ''U6'']"
    unfolding tab by simp
  have c: "lr_controlling_load r =
         Some \<lparr>cl_combination = ''U4'', cl_value = 9, cl_units = ''kip/ft''\<rparr>"
    unfolding ctl tab by (simp add: py_max_default_def)
  have "\<exists>r. LoadAnalysis_design example_loads = Inr r
     \<and> map fst (lr_load_combinations r) = [''U1'', ''U2'', ''U4'', ''U6'']
     \<and> lr_controlling_load r =
         Some \<lparr>cl_combination = ''U4'', cl_value = 9, cl_units = ''kip/ft''\<rparr>"
    by (intro exI [of _ r] conjI r k c)
  then show ?thesis unfolding example_loads_def .
qed

text \<open>
  Claim C3. At \<open>{dead_load: 2.5, snow_load: 1.0}\<close>, where \<open>snow_load\<close> is supplied and
  both \<open>live_load\<close> and \<open>wind_load\<close> are absent, \<open>LoadAnalysis.design\<close> does not add U3
  with the inner maximum taken as 0: the \<open>max\<close> over the empty pool raises, and the call
  ends in a \<open>DesignError\<close>.
\<close>

theorem LoadAnalysis_design_U3_empty_pool:
  "LoadAnalysis_design [''dead_load'' \<mapsto> Some (PFloat 2.5), ''snow_load'' \<mapsto> Some (PFloat 1.0)]
     = Inl (DesignError ''load_analysis'' ''max() arg is an empty sequence'')"
  by (rule LoadAnalysis_design_fails [where dead = "PFloat 2.5"])
     (simp_all add: py_get_def la_validate_inputs_Inr)

section \<open>Properties of StructuralAnalysis\<close>

text \<open>
  \<open>{span_length: 20, factored_load: 2.5}\<close>, without \<open>num_points\<close>, evaluated step by
  step: rounding to two decimals, the range of the ten sample indices, validation, the
  diagrams and the whole of \<open>design\<close>.
\<close>

lemma py_round_2:
  "py_round x 2 =
     (if x * 100 - of_int \<lfloor>x * 100\<rfloor> < 1 / 2 then of_int \<lfloor>x * 100\<rfloor> / 100
      else if x * 100 - of_int \<lfloor>x * 100\<rfloor> > 1 / 2 then of_int (\<lfloor>x * 100\<rfloor> + 1) / 100
      else if even \<lfloor>x * 100\<rfloor> then of_int \<lfloor>x * 100\<rfloor> / 100
      else of_int (\<lfloor>x * 100\<rfloor> + 1) / 100)"
  by (simp add: py_round_def Let_def)

lemma py_range_10: "py_range 10 = [0, 1, 2, 3, 4, 5, 6, 7, 8, 9]"
  unfolding py_range_def by code_simp

lemma beam_example_validated:
  "sa_validate_inputs beam_example = Inr (PInt 20, PFloat 2.5, None)"
  by (simp add: sa_validate_inputs_def sa_validate_param_def validate_numeric_positive_def
      bind_exn_def beam_example_def)

lemma beam_example_diagrams:
  "generate_diagrams (PFloat (5 / 2)) (PInt 20) 10 =
     Inr \<lparr>dg_x_coordinates = [0, 2.22, 4.44, 6.67, 8.89, 11.11, 13.33, 15.56, 17.78, 20],
          dg_shear_values = [25, 19.44, 13.89, 8.33, 2.78, -2.78, -8.33, -13.89, -19.44, -25],
          dg_moment_values =
            [0, 49.38, 86.42, 111.11, 123.46, 123.46, 111.11, 86.42, 49.38, 0],
          dg_units_x = ''ft'', dg_units_shear = ''kip'', dg_units_moment = ''kip-ft''\<rparr>"
  by (simp add: generate_diagrams_def py_range_10 py_round_2 Let_def)


lemma beam_example_design:
  "StructuralAnalysis_design beam_example =
     Inr \<lparr>ar_inputs = sa_initialize_results (PInt 20) (PFloat 2.5) None,
          ar_reactions = calculate_reactions 2.5 20,
          ar_maximum_values = calculate_max_values 2.5 20,
          ar_diagrams =
            \<lparr>dg_x_coordinates = [0, 2.22, 4.44, 6.67, 8.89, 11.11, 13.33, 15.56, 17.78, 20],
             dg_shear_values =
               [25, 19.44, 13.89, 8.33, 2.78, -2.78, -8.33, -13.89, -19.44, -25],
             dg_moment_values =
               [0, 49.38, 86.42, 111.11, 123.46, 123.46, 111.11, 86.42, 49.38, 0],
             dg_units_x = ''ft'', dg_units_shear = ''kip'', dg_units_moment = ''kip-ft''\<rparr>\<rparr>"
  by (simp add: StructuralAnalysis_design_def beam_example_validated bind_exn_def
      wrap_design_def get_num_points_def beam_example_diagrams Let_def)

text \<open>
  Claim C2. At \<open>{span_length: 20, factored_load: 2.5}\<close>, where \<open>num_points\<close> is absent,
  \<open>StructuralAnalysis.design\<close> echoes \<open>num_points = 21\<close> among the inputs, as its
  docstring says, and returns three diagram series of length 10 each: the body of
  \<open>design\<close> reads the parameter with the default 10.
\<close>

theorem StructuralAnalysis_design_default_num_points:
  "\<exists>r. StructuralAnalysis_design
          [''span_length'' \<mapsto> Some (PInt 20), ''factored_load'' \<mapsto> Some (PFloat 2.5)] = Inr r
     \<and> ai_num_points (ar_inputs r) = 21
     \<and> length (dg_x_coordinates (ar_diagrams r)) = 10
     \<and> length (dg_shear_values (ar_diagrams r)) = 10
     \<and> length (dg_moment_values (ar_diagrams r)) = 10"
  unfolding beam_example_def [symmetric] beam_example_design
  by (simp add: sa_initialize_results_def get_num_points_def)

text \<open>
  Claim C7. At the same input the reactions are 25 kip each, the maximum shear is 25 kip
  and the maximum moment 125 kip-ft; the series start at x = 0 with shear 25 and end at
  x = 20 with shear -25. With the ten samples the code takes there is no sample at
  midspan, x = 10, and no sampled moment of 125: the largest is 123.46.
\<close>

theorem StructuralAnalysis_design_example:
  "\<exists>r. StructuralAnalysis_design
          [''span_length'' \<mapsto> Some (PInt 20), ''factored_load'' \<mapsto> Some (PFloat 2.5)] = Inr r
     \<and> rx_Ra (ar_reactions r) = 25 \<and> rx_Rb (ar_reactions r) = 25
     \<and> me_value (mv_shear (ar_maximum_values r)) = 25
     \<and> me_value (mv_moment (ar_maximum_values r)) = 125
     \<and> dg_x_coordinates (ar_diagrams r) =
          [0, 2.22, 4.44, 6.67, 8.89, 11.11, 13.33, 15.56, 17.78, 20]
     \<and> dg_shear_values (ar_diagrams r) =
          [25, 19.44, 13.89, 8.33, 2.78, -2.78, -8.33, -13.89, -19.44, -25]
     \<and> dg_moment_values (ar_diagrams r) =
          [0, 49.38, 86.42, 111.11, 123.46, 123.46, 111.11, 86.42, 49.38, 0]
     \<and> 10 \<notin> set (dg_x_coordinates (ar_diagrams r))
     \<and> 125 \<notin> set (dg_moment_values (ar_diagrams r))"
  unfolding beam_example_def [symmetric] beam_example_design
  by (simp add: calculate_reactions_def calculate_max_values_def Let_def)

section \<open>Errors and placeholders\<close>

text \<open>
  Claim C9. \<open>verify\<close> of LoadAnalysis and of StructuralAnalysis returns a dict with
  \<open>status = "not_implemented"\<close>, and \<open>check_requirements\<close> of each of the three steps
  returns one with \<open>passed = True\<close>, whatever the argument. The functions are total and
  have no exceptional result: their bodies are a single \<open>return\<close> of a literal.
\<close>

theorem placeholder_results:
  "vp_status (LoadAnalysis_verify proposed) = ''not_implemented''
   \<and> vp_status (StructuralAnalysis_verify proposed) = ''not_implemented''
   \<and> rq_passed (PreliminarySizing_check_requirements results)
   \<and> rq_passed (LoadAnalysis_check_requirements results)
   \<and> rq_passed (StructuralAnalysis_check_requirements results)"
  by (simp add: LoadAnalysis_verify_def StructuralAnalysis_verify_def
      PreliminarySizing_check_requirements_def LoadAnalysis_check_requirements_def
      StructuralAnalysis_check_requirements_def)

text \<open>
  Claim C8 as stated names the omitted parameter in every case. \<open>{span_length: -5}\<close>
  omits \<open>factored_load\<close>, and \<open>StructuralAnalysis.design\<close> raises a \<open>DesignError\<close>
  whose message is that of the \<open>InputError\<close> for \<open>span_length\<close>, which is checked
  first and is not positive.
\<close>

theorem StructuralAnalysis_design_reports_earlier_parameter:
  "[''span_length'' \<mapsto> Some (PInt (- 5))] ''factored_load'' = None
   \<and> StructuralAnalysis_design [''span_length'' \<mapsto> Some (PInt (- 5))] =
       Inl (DesignError ''structural_analysis''
              (str_exn (InputError ''span_length'' ''Must be positive'')))"
  by (simp add: StructuralAnalysis_design_def sa_validate_inputs_def sa_validate_param_def
      validate_numeric_positive_def bind_exn_def wrap_design_def sa_step_name_def)

text \<open>
  The cases of the amended claim, one lemma for each required parameter of each step.
\<close>

lemma PreliminarySizing_design_missing:
  assumes "ps ''span_length'' = None"
  shows "PreliminarySizing_design ps =
     Inl (DesignError ''preliminary_sizing''
            (str_exn (InputError ''span_length'' ''Required for design mode'')))"
  using assms
  by (simp add: PreliminarySizing_design_def validate_design_inputs_def wrap_design_def
      ps_step_name_def)

lemma LoadAnalysis_design_missing:
  assumes "ps ''dead_load'' = None"
  shows "LoadAnalysis_design ps =
     Inl (DesignError ''load_analysis''
            (str_exn (InputError ''dead_load'' ''Required for load analysis'')))"
  using assms
  by (simp add: LoadAnalysis_design_def la_validate_inputs_def bind_exn_def wrap_design_def
      la_step_name_def)

lemma StructuralAnalysis_design_missing_span:
  assumes "ps ''span_length'' = None"
  shows "StructuralAnalysis_design ps =
     Inl (DesignError ''structural_analysis''
            (str_exn (InputError ''span_length'' ''Required for structural analysis'')))"
  using assms
  by (simp add: StructuralAnalysis_design_def sa_validate_inputs_def sa_validate_param_def
      bind_exn_def wrap_design_def sa_step_name_def)

lemma StructuralAnalysis_design_missing_load:
  assumes "ps ''span_length'' = Some (Some L)" and "0 < to_float L"
    and "ps ''factored_load'' = None"
  shows "StructuralAnalysis_design ps =
     Inl (DesignError ''structural_analysis''
            (str_exn (InputError ''factored_load'' ''Required for structural analysis'')))"
  using assms
  by (simp add: StructuralAnalysis_design_def sa_validate_inputs_def sa_validate_param_def
      validate_numeric_positive_def bind_exn_def wrap_design_def sa_step_name_def)

lemma PreliminarySizing_verify_missing_span:
  assumes "ps ''span_length'' = None"
  shows "PreliminarySizing_verify ps =
     Inl (VerificationError ''preliminary_sizing''
            (str_exn (InputError ''span_length'' ''Required for verification'')))"
  using assms
  by (simp add: PreliminarySizing_verify_def validate_verification_inputs_def
      validate_verification_param_def bind_exn_def wrap_verify_def ps_step_name_def)

lemma PreliminarySizing_verify_missing_depth:
  assumes "ps ''span_length'' = Some (Some L)" and "0 < to_float L"
    and "ps ''depth'' = None"
  shows "PreliminarySizing_verify ps =
     Inl (VerificationError ''preliminary_sizing''
            (str_exn (InputError ''depth'' ''Required for verification'')))"
  using assms
  by (simp add: PreliminarySizing_verify_def validate_verification_inputs_def
      validate_verification_param_def validate_numeric_positive_def bind_exn_def
      wrap_verify_def ps_step_name_def)

lemma PreliminarySizing_verify_missing_width:
  assumes "ps ''span_length'' = Some (Some L)" and "0 < to_float L"
    and "ps ''depth'' = Some (Some h)" and "0 < to_float h"
    and "ps ''width'' = None"
  shows "PreliminarySizing_verify ps =
     Inl (VerificationError ''preliminary_sizing''
            (str_exn (InputError ''width'' ''Required for verification'')))"
  using assms
  by (simp add: PreliminarySizing_verify_def validate_verification_inputs_def
      validate_verification_param_def validate_numeric_positive_def bind_exn_def
      wrap_verify_def ps_step_name_def)

text \<open>
  Claim C8, as amended. The validation of a step goes through its required parameters
  in a fixed order and raises at the first that is missing or not a positive number.
  So an omitted required parameter is the one named by the \<open>InputError\<close>, whose message
  the \<open>DesignError\<close> of \<open>design\<close> (the \<open>VerificationError\<close> of
  \<open>PreliminarySizing.verify\<close>) carries together with the name of the step, whenever
  every required parameter checked before it is present and a positive number; the call
  returns no result. The required parameters are \<open>span_length\<close> for
  \<open>PreliminarySizing.design\<close>, \<open>dead_load\<close> for \<open>LoadAnalysis.design\<close>, \<open>span_length\<close>
  then \<open>factored_load\<close> for \<open>StructuralAnalysis.design\<close>, and \<open>span_length\<close>, \<open>depth\<close>,
  \<open>width\<close> in this order for \<open>PreliminarySizing.verify\<close>.
\<close>

theorem missing_required_parameter:
  "(ps ''span_length'' = None \<longrightarrow>
      PreliminarySizing_design ps =
        Inl (DesignError ''preliminary_sizing''
               (str_exn (InputError ''span_length'' ''Required for design mode''))))
   \<and> (ps ''dead_load'' = None \<longrightarrow>
      LoadAnalysis_design ps =
        Inl (DesignError ''load_analysis''
               (str_exn (InputError ''dead_load'' ''Required for load analysis''))))
   \<and> (ps ''span_length'' = None \<longrightarrow>
      StructuralAnalysis_design ps =
        Inl (DesignError ''structural_analysis''
               (str_exn (InputError ''span_length'' ''Required for structural analysis''))))
   \<and> (ps ''span_length'' = Some (Some L) \<and> 0 < to_float L \<and> ps ''factored_load'' = None \<longrightarrow>
      StructuralAnalysis_design ps =
        Inl (DesignError ''structural_analysis''
               (str_exn (InputError ''factored_load'' ''Required for structural analysis''))))
   \<and> (ps ''span_length'' = None \<longrightarrow>
      PreliminarySizing_verify ps =
        Inl (VerificationError ''preliminary_sizing''
               (str_exn (InputError ''span_length'' ''Required for verification''))))
   \<and> (ps ''span_length'' = Some (Some L) \<and> 0 < to_float L \<and> ps ''depth'' = None \<longrightarrow>
      PreliminarySizing_verify ps =
        Inl (VerificationError ''preliminary_sizing''
               (str_exn (InputError ''depth'' ''Required for verification''))))
   \<and> (ps ''span_length'' = Some (Some L) \<and> 0 < to_float L
        \<and> ps ''depth'' = Some (Some h) \<and> 0 < to_float h \<and> ps ''width'' = None \<longrightarrow>
      PreliminarySizing_verify ps =
        Inl (VerificationError ''preliminary_sizing''
               (str_exn (InputError ''width'' ''Required for verification''))))"
proof (intro conjI impI)
  show "PreliminarySizing_design ps =
        Inl (DesignError ''preliminary_sizing''
               (str_exn (InputError ''span_length'' ''Required for design mode'')))"
    if "ps ''span_length'' = None"
    using that by (rule PreliminarySizing_design_missing)
  show "LoadAnalysis_design ps =
        Inl (DesignError ''load_analysis''
               (str_exn (InputError ''dead_load'' ''Required for load analysis'')))"
    if "ps ''dead_load'' = None"
    using that by (rule LoadAnalysis_design_missing)
  show "StructuralAnalysis_design ps =
        Inl (DesignError ''structural_analysis''
               (str_exn (InputError ''span_length'' ''Required for structural analysis'')))"
    if "ps ''span_length'' = None"
    using that by (rule StructuralAnalysis_design_missing_span)
  show "StructuralAnalysis_design ps =
        Inl (DesignError ''structural_analysis''
               (str_exn (InputError ''factored_load'' ''Required for structural analysis'')))"
    if "ps ''span_length'' = Some (Some L) \<and> 0 < to_float L \<and> ps ''factored_load'' = None"
    using that by (intro StructuralAnalysis_design_missing_load [of ps L]) simp_all
  show "PreliminarySizing_verify ps =
        Inl (VerificationError ''preliminary_sizing''
               (str_exn (InputError ''span_length'' ''Required for verification'')))"
    if "ps ''span_length'' = None"
    using that by (rule PreliminarySizing_verify_missing_span)
  show "PreliminarySizing_verify ps =
        Inl (VerificationError ''preliminary_sizing''
               (str_exn (InputError ''depth'' ''Required for verification'')))"
    if "ps ''span_length'' = Some (Some L) \<and> 0 < to_float L \<and> ps ''depth'' = None"
    using that by (intro PreliminarySizing_verify_missing_depth [of ps L]) simp_all
  show "PreliminarySizing_verify ps =
        Inl (VerificationError ''preliminary_sizing''
               (str_exn (InputError ''width'' ''Required for verification'')))"
    if "ps ''span_length'' = Some (Some L) \<and> 0 < to_float L
        \<and> ps ''depth'' = Some (Some h) \<and> 0 < to_float h \<and> ps ''width'' = None"
    using that by (intro PreliminarySizing_verify_missing_width [of ps L h]) simp_all
qed

text \<open>
  Each hypothesis is met: by the empty dict, by \<open>{span_length: 20}\<close> and by
  \<open>{span_length: 20, depth: 12}\<close>.
\<close>

theorem missing_required_parameter_witness:
  "PreliminarySizing_design Map.empty =
        Inl (DesignError ''preliminary_sizing''
               (str_exn (InputError ''span_length'' ''Required for design mode'')))
   \<and> LoadAnalysis_design Map.empty =
        Inl (DesignError ''load_analysis''
               (str_exn (InputError ''dead_load'' ''Required for load analysis'')))
   \<and> StructuralAnalysis_design Map.empty =
        Inl (DesignError ''structural_analysis''
               (str_exn (InputError ''span_length'' ''Required for structural analysis'')))
   \<and> StructuralAnalysis_design [''span_length'' \<mapsto> Some (PInt 20)] =
        Inl (DesignError ''structural_analysis''
               (str_exn (InputError ''factored_load'' ''Required for structural analysis'')))
   \<and> PreliminarySizing_verify Map.empty =
        Inl (VerificationError ''preliminary_sizing''
               (str_exn (InputError ''span_length'' ''Required for verification'')))
   \<and> PreliminarySizing_verify [''span_length'' \<mapsto> Some (PInt 20)] =
        Inl (VerificationError ''preliminary_sizing''
               (str_exn (InputError ''depth'' ''Required for verification'')))
   \<and> PreliminarySizing_verify
        [''span_length'' \<mapsto> Some (PInt 20), ''depth'' \<mapsto> Some (PInt 12)] =
        Inl (VerificationError ''preliminary_sizing''
               (str_exn (InputError ''width'' ''Required for verification'')))"
  using missing_required_parameter [where ps = Map.empty]
    missing_required_parameter [where ps = "[''span_length'' \<mapsto> Some (PInt 20)]" and L = "PInt 20"]
    missing_required_parameter [where ps = "[''span_length'' \<mapsto> Some (PInt 20), ''depth'' \<mapsto> Some (PInt 12)]"
      and L = "PInt 20" and h = "PInt 12"]
  by simp

end
